theory Spec2Isabelle
  imports Main "HOL-Library.Sublist"
begin

section \<open>The jobqueue client of wr: data model\<close>

text \<open>
  The development follows the Go file of package \<open>jobqueue\<close> that implements the client:
  \<open>Reserve\<close>, \<open>ReserveScheduled\<close>, \<open>Execute\<close>, \<open>Touch\<close>, \<open>ended\<close>, \<open>Archive\<close>,
  \<open>Release\<close> and \<open>Bury\<close>. Everything the code obtains from outside (the reply of the
  server to a request, the result of a memory probe, the clock, the outcome of
  \<open>cmd.Wait()\<close>, of \<open>Unmount\<close> and of \<open>TriggerBehaviours\<close>) is an explicit argument of
  the function that consumes it.

  A Go \<open>error\<close> is modelled by \<open>string option\<close>: \<open>None\<close> is \<open>nil\<close> and \<open>Some m\<close> is an
  error whose \<open>Error()\<close> text is \<open>m\<close>. Go's \<open>int\<close> is modelled by \<open>int\<close>: the integers
  handled here are exit codes, retry counters and amounts of memory in MiB, all far from
  the bounds of a 64-bit integer.
\<close>

type_synonym error = "string option"

subsection \<open>Strings\<close>

text \<open>
  \<open>strings.Contains(s, substr)\<close> reports whether \<open>substr\<close> occurs in \<open>s\<close> as a
  contiguous run of bytes; the empty string occurs in every string.
\<close>

fun Contains :: "string \<Rightarrow> string \<Rightarrow> bool" where
  "Contains [] substr = (substr = [])"
| "Contains (c # cs) substr = (prefix substr (c # cs) \<or> Contains cs substr)"

subsection \<open>Fail reasons\<close>

definition FailReasonCPerm :: string where
  "FailReasonCPerm = ''command permission problem''"

definition FailReasonCFound :: string where
  "FailReasonCFound = ''command not found''"

definition FailReasonCExit :: string where
  "FailReasonCExit = ''command invalid exit code''"

definition FailReasonExit :: string where
  "FailReasonExit = ''command exited non-zero''"

definition FailReasonRAM :: string where
  "FailReasonRAM = ''command used too much RAM''"

definition FailReasonTime :: string where
  "FailReasonTime = ''command used too much time''"

definition FailReasonAbnormal :: string where
  "FailReasonAbnormal = ''command failed to complete normally''"

definition FailReasonSignal :: string where
  "FailReasonSignal = ''runner received a signal to stop''"

definition FailReasonUpload :: string where
  "FailReasonUpload = ''failed to upload files to remote file system''"

definition FailReasonKilled :: string where
  "FailReasonKilled = ''killed by user request''"

subsection \<open>Jobs, end states, requests and replies\<close>

text \<open>
  Modelled from the spec: the declarations of \<open>Job\<close>, \<open>JobState\<close> and
  \<open>serverResponse\<close> are in other files of the package. The states are
  those the specification lists; the fields of a job are those the client code reads or
  writes; \<open>UntilBuried\<close> is an integer counter that \<open>Release\<close> decrements and compares
  with zero.
\<close>

datatype JobState =
    JobStateReady | JobStateReserved | JobStateRunning
  | JobStateDelayed | JobStateComplete | JobStateBuried

record Requirements =
  RAM :: int
  Time :: int

record Job =
  Cmd :: string
  Requirements :: Requirements
  UntilBuried :: int
  ActualCwd :: string
  Exited :: bool
  Exitcode :: int
  PeakRAM :: int
  CPUtime :: int
  StdOutC :: string
  StdErrC :: string
  FailReason :: string
  State :: JobState

text \<open>
  \<open>JobEndState\<close> of the source; its fields carry the prefix \<open>jes\<close> here because a job
  has fields of the same names. A \<open>*JobEndState\<close> that may be \<open>nil\<close> is a
  \<open>JobEndState option\<close>.
\<close>

record JobEndState =
  jesCwd :: string
  jesExitcode :: int
  jesPeakRAM :: int
  jesCPUtime :: int
  jesStdout :: string
  jesStderr :: string
  jesExited :: bool

record clientRequest =
  Method :: string
  Timeout :: int
  SchedulerGroup :: string
  FirstReserve :: bool

record serverResponse =
  RespJob :: "Job option"
  KillCalled :: bool

text \<open>
  What \<open>c.request(...)\<close> returns: the decoded response and an error. The server and the
  network decide it, so each function that calls \<open>request\<close> takes the reply as an
  argument.
\<close>

type_synonym reply = "serverResponse \<times> error"

record Client =
  hasReserved :: bool

text \<open>
  The client that \<open>Connect\<close> builds: \<open>hasReserved\<close> is not set in the composite
  literal, so it has the zero value.
\<close>

definition new_Client :: Client where
  "new_Client = \<lparr>hasReserved = False\<rparr>"

section \<open>Reserve and ReserveScheduled\<close>

text \<open>
  Both methods compute \<open>fr\<close> from \<open>hasReserved\<close> and set the flag before the request is
  made. The result is the updated client, the request that was sent and what the method
  returns.
\<close>

definition Reserve :: "Client \<Rightarrow> int \<Rightarrow> reply \<Rightarrow> Client \<times> clientRequest \<times> (Job option \<times> error)" where
  "Reserve c timeout rep =
     (let fr = \<not> hasReserved c;
          c' = (if \<not> hasReserved c then c\<lparr>hasReserved := True\<rparr> else c);
          req = \<lparr>Method = ''reserve'', Timeout = timeout, SchedulerGroup = [], FirstReserve = fr\<rparr>
      in case snd rep of
           Some e \<Rightarrow> (c', req, (None, Some e))
         | None \<Rightarrow> (c', req, (RespJob (fst rep), None)))"

definition ReserveScheduled ::
  "Client \<Rightarrow> int \<Rightarrow> string \<Rightarrow> reply \<Rightarrow> Client \<times> clientRequest \<times> (Job option \<times> error)" where
  "ReserveScheduled c timeout schedulerGroup rep =
     (let fr = \<not> hasReserved c;
          c' = (if \<not> hasReserved c then c\<lparr>hasReserved := True\<rparr> else c);
          req = \<lparr>Method = ''reserve'', Timeout = timeout, SchedulerGroup = schedulerGroup,
                 FirstReserve = fr\<rparr>
      in case snd rep of
           Some e \<Rightarrow> (c', req, (None, Some e))
         | None \<Rightarrow> (c', req, (RespJob (fst rep), None)))"

text \<open>
  A caller's sequence of reserve calls on one client, each with the reply it meets. The
  run returns, call by call, the request sent and the value returned.
\<close>

datatype reserve_call =
    CallReserve int reply
  | CallReserveScheduled int string reply

fun reserve_run :: "Client \<Rightarrow> reserve_call list \<Rightarrow> (clientRequest \<times> (Job option \<times> error)) list" where
  "reserve_run c [] = []"
| "reserve_run c (CallReserve t rep # calls) =
     (case Reserve c t rep of (c', req, res) \<Rightarrow> (req, res) # reserve_run c' calls)"
| "reserve_run c (CallReserveScheduled t g rep # calls) =
     (case ReserveScheduled c t g rep of (c', req, res) \<Rightarrow> (req, res) # reserve_run c' calls)"

text \<open>A reserve call is successful when it returns no error.\<close>

definition successful :: "clientRequest \<times> (Job option \<times> error) \<Rightarrow> bool" where
  "successful r = (snd (snd r) = None)"

section \<open>Execute: the command handed to the shell\<close>

definition pipefail :: string where
  "pipefail = ''set -o pipefail; ''"

definition shell_jc :: "string \<Rightarrow> string" where
  "shell_jc jobCmd = (let jc = jobCmd in if Contains jc '' | '' then pipefail @ jc else jc)"

text \<open>The argument vector of \<open>exec.Command(shell, "-c", jc)\<close>.\<close>

definition exec_Command :: "string \<Rightarrow> Job \<Rightarrow> string list" where
  "exec_Command shell job = [shell, ''-c'', shell_jc (Cmd job)]"

section \<open>ended, Archive, Release and Bury\<close>

text \<open>
  \<open>compress\<close> is defined elsewhere in the package; it returns the compressed bytes and
  an error, and is a parameter here. \<open>ended\<close> returns the updated job and its error.
  The assignment \<open>job.StdOutC, err = compress(...)\<close> stores the returned bytes also when
  the error is not \<open>nil\<close>.
\<close>

type_synonym compressor = "string \<Rightarrow> string \<times> error"

definition ended :: "compressor \<Rightarrow> Job \<Rightarrow> JobEndState option \<Rightarrow> Job \<times> error" where
  "ended compress job jes =
     (case jes of
        None \<Rightarrow> (job, None)
      | Some e \<Rightarrow>
          if \<not> jesExited e then (job, None)
          else
            let job1 = job\<lparr>Exited := True, Exitcode := jesExitcode e,
                           PeakRAM := jesPeakRAM e, CPUtime := jesCPUtime e\<rparr>;
                job2 = (if jesCwd e \<noteq> [] then job1\<lparr>ActualCwd := jesCwd e\<rparr> else job1);
                (job3, err3) =
                  (if length (jesStdout e) > 0
                   then (job2\<lparr>StdOutC := fst (compress (jesStdout e))\<rparr>,
                         snd (compress (jesStdout e)))
                   else (job2, None))
            in if err3 \<noteq> None then (job3, err3)
               else if length (jesStderr e) > 0
               then
                 (let job4 = job3\<lparr>StdErrC := fst (compress (jesStderr e))\<rparr>;
                      err4 = snd (compress (jesStderr e))
                  in (job4, err4))
               else (job3, None))"

definition Archive :: "compressor \<Rightarrow> reply \<Rightarrow> Job \<Rightarrow> JobEndState option \<Rightarrow> Job \<times> error" where
  "Archive compress rep job jes =
     (case ended compress job jes of
        (job1, Some e) \<Rightarrow> (job1, Some e)
      | (job1, None) \<Rightarrow>
          (case snd rep of
             Some e \<Rightarrow> (job1, Some e)
           | None \<Rightarrow> (job1\<lparr>State := JobStateComplete\<rparr>, None)))"

text \<open>
  \<open>updateRecsAfterFailure\<close> is a method of \<open>Job\<close> defined elsewhere in the package; it
  is a parameter of \<open>Release\<close>.
\<close>

definition Release ::
  "compressor \<Rightarrow> (Job \<Rightarrow> Job) \<Rightarrow> reply \<Rightarrow> Job \<Rightarrow> JobEndState option \<Rightarrow> string \<Rightarrow> Job \<times> error" where
  "Release compress updateRecsAfterFailure rep job jes failreason =
     (case ended compress job jes of
        (job1, Some e) \<Rightarrow> (job1, Some e)
      | (job1, None) \<Rightarrow>
          let job2 = job1\<lparr>FailReason := failreason\<rparr>
          in case snd rep of
               Some e \<Rightarrow> (job2, Some e)
             | None \<Rightarrow>
                 let job3 = (if Exited job2 \<and> Exitcode job2 \<noteq> 0
                             then updateRecsAfterFailure (job2\<lparr>UntilBuried := UntilBuried job2 - 1\<rparr>)
                             else job2);
                     job4 = (if UntilBuried job3 \<le> 0
                             then job3\<lparr>State := JobStateBuried\<rparr>
                             else job3\<lparr>State := JobStateDelayed\<rparr>)
                 in (job4, None))"

text \<open>
  The variadic \<open>stderr ...error\<close> of \<open>Bury\<close> is a list of errors, each of which may be
  \<open>nil\<close>.
\<close>

definition Bury ::
  "compressor \<Rightarrow> reply \<Rightarrow> Job \<Rightarrow> JobEndState option \<Rightarrow> string \<Rightarrow> error list \<Rightarrow> Job \<times> error" where
  "Bury compress rep job jes failreason stderr =
     (case ended compress job jes of
        (job1, Some e) \<Rightarrow> (job1, Some e)
      | (job1, None) \<Rightarrow>
          let job2 = job1\<lparr>FailReason := failreason\<rparr>;
              (job3, err3) =
                (case stderr of
                   [Some m] \<Rightarrow> (job2\<lparr>StdErrC := fst (compress m)\<rparr>, snd (compress m))
                 | _ \<Rightarrow> (job2, None))
          in case err3 of
               Some e \<Rightarrow> (job3, Some e)
             | None \<Rightarrow>
                 (case snd rep of
                    Some e \<Rightarrow> (job3, Some e)
                  | None \<Rightarrow> (job3\<lparr>State := JobStateBuried\<rparr>, None)))"

section \<open>Touch\<close>

definition Touch :: "reply \<Rightarrow> bool \<times> error" where
  "Touch rep = (case snd rep of Some e \<Rightarrow> (False, Some e) | None \<Rightarrow> (KillCalled (fst rep), None))"

section \<open>Execute: the supervisory task\<close>

text \<open>
  The task started by \<open>Execute\<close> after \<open>Started\<close> loops over a \<open>select\<close> with four
  cases. Its variables are those it shares with \<open>Execute\<close>; \<open>kills\<close> counts the calls of
  \<open>cmd.Process.Kill()\<close> and \<open>looping\<close> says that the task has not returned. An event
  is the case the \<open>select\<close> takes, with what the case reads from outside: the clock and
  the reply to \<open>jtouch\<close> for the touch ticker, the result of \<open>currentMemory(job.Pid)\<close>
  for the memory ticker. The results of \<open>Kill\<close> and of closing the two readers only
  feed the text of the returned error and are left out.
\<close>

record supervisor =
  peakmem :: int
  ranoutMem :: bool
  ranoutTime :: bool
  signalled :: bool
  killCalled :: bool
  kills :: nat
  looping :: bool

datatype event =
    Sigs
  | Ticker int reply
  | MemTicker "int \<times> error"
  | StopChecking

definition supervisor0 :: supervisor where
  "supervisor0 = \<lparr>peakmem = 0, ranoutMem = False, ranoutTime = False, signalled = False,
                   killCalled = False, kills = 0, looping = True\<rparr>"

fun select_case :: "int \<Rightarrow> int \<Rightarrow> supervisor \<Rightarrow> event \<Rightarrow> supervisor" where
  "select_case endT ram s Sigs =
     s\<lparr>kills := Suc (kills s), signalled := True, looping := False\<rparr>"
| "select_case endT ram s (Ticker now rep) =
     (let s1 = (if \<not> ranoutTime s \<and> now > endT then s\<lparr>ranoutTime := True\<rparr> else s);
          (kc, errf) = Touch rep
      in if kc then s1\<lparr>kills := Suc (kills s1), killCalled := True, looping := False\<rparr>
         else s1)"
| "select_case endT ram s (MemTicker (mem, errf)) =
     (if errf = None \<and> mem > peakmem s
      then
        (let s1 = s\<lparr>peakmem := mem\<rparr>
         in if peakmem s1 > ram
            then s1\<lparr>kills := Suc (kills s1), ranoutMem := True, looping := False\<rparr>
            else s1)
      else s)"
| "select_case endT ram s StopChecking = s\<lparr>looping := False\<rparr>"

text \<open>Once the task has returned, no further case is taken.\<close>

definition supervise :: "int \<Rightarrow> int \<Rightarrow> supervisor \<Rightarrow> event \<Rightarrow> supervisor" where
  "supervise endT ram s ev = (if looping s then select_case endT ram s ev else s)"

definition supervise_all :: "int \<Rightarrow> int \<Rightarrow> supervisor \<Rightarrow> event list \<Rightarrow> supervisor" where
  "supervise_all endT ram s evs = foldl (supervise endT ram) s evs"

text \<open>
  The memory samples the task has taken into account: the successful probes of the
  memory ticker at a moment when the task was still looping.
\<close>

fun samples :: "int \<Rightarrow> int \<Rightarrow> supervisor \<Rightarrow> event list \<Rightarrow> int list" where
  "samples endT ram s [] = []"
| "samples endT ram s (ev # evs) =
     (case ev of
        MemTicker (mem, None) \<Rightarrow> (if looping s then [mem] else [])
      | _ \<Rightarrow> [])
     @ samples endT ram (supervise endT ram s ev) evs"

section \<open>Execute: peak memory\<close>

text \<open>Go's integer division truncates towards zero.\<close>

definition quo :: "int \<Rightarrow> int \<Rightarrow> int" where
  "quo a b = sgn a * sgn b * (\<bar>a\<bar> div \<bar>b\<bar>)"

text \<open>
  \<open>darwin\<close> stands for \<open>runtime.GOOS == "darwin"\<close> and \<open>maxrss\<close> for \<open>ru.Maxrss\<close>; the
  probe is the result of \<open>currentMemory(os.Getpid())\<close>.
\<close>

definition seed_peakmem :: "bool \<Rightarrow> int \<Rightarrow> int \<Rightarrow> int" where
  "seed_peakmem darwin maxrss pm =
     (if pm = 0
      then (if darwin then quo (quo maxrss 1024) 1024 else quo maxrss 1024)
      else pm)"

definition add_ourmem :: "int \<times> error \<Rightarrow> int \<Rightarrow> int" where
  "add_ourmem probe pm =
     (let ourmem = (if snd probe \<noteq> None then 10 else fst probe) in pm + ourmem)"

definition reported_peakmem :: "bool \<Rightarrow> int \<Rightarrow> int \<times> error \<Rightarrow> supervisor \<Rightarrow> int" where
  "reported_peakmem darwin maxrss probe s =
     add_ourmem probe (seed_peakmem darwin maxrss (peakmem s))"

section \<open>Execute: what to do with the job\<close>

text \<open>
  What \<open>cmd.Wait()\<close> leaves behind. When the process was waited for, the error is
  \<open>nil\<close> or an \<open>*exec.ExitError\<close> and \<open>cmd.ProcessState\<close> is set: \<open>ExitStatus\<close> is the
  \<open>ExitStatus()\<close> of its wait status, \<open>Maxrss\<close> the \<open>Maxrss\<close> of its \<open>SysUsage()\<close>,
  \<open>SystemTime\<close> its \<open>SystemTime()\<close> and \<open>StatusText\<close> its \<open>String()\<close>, the text of the
  \<open>*exec.ExitError\<close>. Any other error is the error of the wait itself: \<open>Execute\<close> reads
  the command's output through \<open>StdoutPipe\<close> and \<open>StderrPipe\<close> and gives it no input, so
  \<open>os/exec\<close> copies nothing and \<open>Wait\<close> has no other error to return; \<open>cmd.ProcessState\<close>
  is then \<open>nil\<close>.

  The classification below is that of a command that was waited for. The error \<open>myerr\<close>
  that \<open>Execute\<close> composes for its caller is not part of the outcome.
\<close>

datatype wait_error = WaitNil | ExitError

record ProcessState =
  ExitStatus :: int
  Maxrss :: int
  SystemTime :: int
  StatusText :: string

datatype wait = Waited wait_error ProcessState | WaitFailed string

record outcome =
  exitcode :: int
  dobury :: bool
  dorelease :: bool
  doarchive :: bool
  failreason :: string

definition outcome0 :: outcome where
  "outcome0 = \<lparr>exitcode = 0, dobury = False, dorelease = False, doarchive = False,
                failreason = []\<rparr>"

definition classify :: "wait_error \<Rightarrow> int \<Rightarrow> supervisor \<Rightarrow> outcome" where
  "classify err status s =
     (case err of
        ExitError \<Rightarrow>
          (let o1 = outcome0\<lparr>exitcode := status\<rparr>
           in if exitcode o1 = 126 then o1\<lparr>dobury := True, failreason := FailReasonCPerm\<rparr>
              else if exitcode o1 = 127 then o1\<lparr>dobury := True, failreason := FailReasonCFound\<rparr>
              else if exitcode o1 = 128 then o1\<lparr>dobury := True, failreason := FailReasonCExit\<rparr>
              else
                (let o2 = o1\<lparr>dorelease := True\<rparr>
                 in if ranoutMem s then o2\<lparr>failreason := FailReasonRAM\<rparr>
                    else if signalled s then
                      (if ranoutTime s then o2\<lparr>failreason := FailReasonTime\<rparr>
                       else o2\<lparr>failreason := FailReasonSignal\<rparr>)
                    else if killCalled s then o2\<lparr>dobury := True, failreason := FailReasonKilled\<rparr>
                    else o2\<lparr>failreason := FailReasonExit\<rparr>))
      | WaitNil \<Rightarrow> outcome0\<lparr>exitcode := status, doarchive := True\<rparr>)"

text \<open>
  What \<open>Execute\<close> sets when the error of \<open>cmd.Wait()\<close> is not an \<open>*exec.ExitError\<close>: the
  \<open>else\<close> branch of the classification.
\<close>

definition abnormal :: outcome where
  "abnormal = outcome0\<lparr>exitcode := 255, dorelease := True, failreason := FailReasonAbnormal\<rparr>"

text \<open>
  The method the report loop calls: its \<open>if\<close> chain tests \<open>dobury\<close>, then
  \<open>dorelease\<close>, then \<open>doarchive\<close>.
\<close>

datatype disposition = DoBury | DoRelease | DoArchive

definition disposition_of :: "outcome \<Rightarrow> disposition option" where
  "disposition_of oc =
     (if dobury oc then Some DoBury
      else if dorelease oc then Some DoRelease
      else if doarchive oc then Some DoArchive
      else None)"

section \<open>Execute: after Unmount\<close>

definition after_unmount :: "error \<Rightarrow> outcome \<Rightarrow> outcome" where
  "after_unmount unmountErr oc =
     (case unmountErr of
        None \<Rightarrow> oc
      | Some msg \<Rightarrow>
          (if Contains msg ''failed to upload''
           then
             (let oa = (if \<not> dobury oc then oc\<lparr>dorelease := True\<rparr> else oc);
                  ob = (if failreason oa = [] then oa\<lparr>failreason := FailReasonUpload\<rparr> else oa)
              in if exitcode ob = 0 then ob\<lparr>exitcode := - 2\<rparr> else ob)
           else oc))"

text \<open>The outcome the report loop works with: the classification, then the unmount.\<close>

definition decide :: "wait_error \<Rightarrow> int \<Rightarrow> supervisor \<Rightarrow> error \<Rightarrow> outcome" where
  "decide err status s unmountErr = after_unmount unmountErr (classify err status s)"

section \<open>Execute: reporting the final state\<close>

text \<open>
  The loop at the end of \<open>Execute\<close>. \<open>replies n\<close> is the reply the server gives to the
  request of the attempt with \<open>retryNum = n\<close>; the loop carries the job and the variable
  \<open>err\<close>, and returns them with \<open>worked\<close> and the trace of what it did: the methods
  called and the sleeps, in milliseconds.
\<close>

datatype action = Call disposition | Sleep nat | TriggerBehaviours bool

definition maxRetries :: nat where
  "maxRetries = 300"

definition attempt ::
  "compressor \<Rightarrow> (Job \<Rightarrow> Job) \<Rightarrow> reply \<Rightarrow> outcome \<Rightarrow> JobEndState \<Rightarrow> Job \<times> error
   \<Rightarrow> (Job \<times> error) \<times> action list" where
  "attempt compress upd rep oc jes je =
     (if dobury oc
      then (Bury compress rep (fst je) (Some jes) (failreason oc) [], [Call DoBury])
      else if dorelease oc
      then (Release compress upd rep (fst je) (Some jes) (failreason oc), [Call DoRelease])
      else if doarchive oc
      then (Archive compress rep (fst je) (Some jes), [Call DoArchive])
      else (je, []))"

function report_loop ::
  "compressor \<Rightarrow> (Job \<Rightarrow> Job) \<Rightarrow> (nat \<Rightarrow> reply) \<Rightarrow> outcome \<Rightarrow> JobEndState \<Rightarrow> nat
   \<Rightarrow> Job \<times> error \<Rightarrow> (Job \<times> error) \<times> bool \<times> action list" where
  "report_loop compress upd replies oc jes retryNum je =
     (if retryNum < maxRetries
      then
        (case attempt compress upd (replies retryNum) oc jes je of
           ((job', Some e), acts) \<Rightarrow>
             (case report_loop compress upd replies oc jes (Suc retryNum) (job', Some e) of
                (je'', worked, tr) \<Rightarrow> (je'', worked, acts @ [Sleep (retryNum * 100)] @ tr))
         | ((job', None), acts) \<Rightarrow> ((job', None), True, acts))
      else (je, False, []))"
  by pat_completeness auto
termination
  by (relation "measure (\<lambda>(compress, upd, replies, oc, jes, retryNum, je). maxRetries - retryNum)")
     auto

declare report_loop.simps [simp del]

text \<open>
  Reading a trace: the sleeps and the calls in it, and the trace of the failed attempts
  numbered \<open>k\<close> to \<open>n - 1\<close>, each a call followed by its sleep.
\<close>

fun trace_sleeps :: "action list \<Rightarrow> nat list" where
  "trace_sleeps [] = []"
| "trace_sleeps (Sleep ms # tr) = ms # trace_sleeps tr"
| "trace_sleeps (a # tr) = trace_sleeps tr"

fun trace_calls :: "action list \<Rightarrow> disposition list" where
  "trace_calls [] = []"
| "trace_calls (Call d # tr) = d # trace_calls tr"
| "trace_calls (a # tr) = trace_calls tr"

definition retries :: "disposition \<Rightarrow> nat \<Rightarrow> nat \<Rightarrow> action list" where
  "retries d k n = concat (map (\<lambda>i. [Call d, Sleep (i * 100)]) [k..<n])"

text \<open>
  The end state handed to the server, and the end of \<open>Execute\<close>: the loop, then, when no
  attempt worked, \<open>TriggerBehaviours(false)\<close> (its error is \<open>errt\<close>) and the error that
  says the job must be rerun; otherwise \<open>myerr\<close>. \<open>%s\<close> of a \<open>nil\<close> error prints
  \<open>%!s(<nil>)\<close>.
\<close>

definition end_state :: "string \<Rightarrow> outcome \<Rightarrow> int \<Rightarrow> int \<Rightarrow> string \<Rightarrow> string \<Rightarrow> JobEndState" where
  "end_state actualCwd oc pm cputime finalStdOut finalStdErr =
     \<lparr>jesCwd = actualCwd, jesExitcode = exitcode oc, jesPeakRAM = pm, jesCPUtime = cputime,
      jesStdout = finalStdOut, jesStderr = finalStdErr, jesExited = True\<rparr>"

text \<open>
  The end state that \<open>Execute\<close> composes before the loop, from what the run produced:
  the outcome after the unmount and the peak memory with the runner's own added.
\<close>

definition final_state ::
  "bool \<Rightarrow> int \<Rightarrow> int \<times> error \<Rightarrow> wait_error \<Rightarrow> int \<Rightarrow> error \<Rightarrow> string \<Rightarrow> int \<Rightarrow> string
   \<Rightarrow> string \<Rightarrow> supervisor \<Rightarrow> JobEndState" where
  "final_state darwin maxrss probe err status unmountErr actualCwd cputime finalStdOut finalStdErr s =
     end_state actualCwd (decide err status s unmountErr) (reported_peakmem darwin maxrss probe s)
       cputime finalStdOut finalStdErr"

definition errtext :: "error \<Rightarrow> string" where
  "errtext e = (case e of None \<Rightarrow> ''%!s(<nil>)'' | Some m \<Rightarrow> m)"

definition rerun_error :: "string \<Rightarrow> error \<Rightarrow> error \<Rightarrow> string" where
  "rerun_error cmd err errt =
     ''command ['' @ cmd
       @ ''] finished running, but will need to be rerun due to a jobqueue server error: ''
       @ errtext err
       @ (case errt of None \<Rightarrow> []
          | Some m \<Rightarrow> '' (and triggering behaviours failed: '' @ m @ '')'')"

definition report ::
  "compressor \<Rightarrow> (Job \<Rightarrow> Job) \<Rightarrow> (nat \<Rightarrow> reply) \<Rightarrow> error \<Rightarrow> outcome \<Rightarrow> JobEndState \<Rightarrow> error
   \<Rightarrow> Job \<times> error \<Rightarrow> Job \<times> error \<times> action list" where
  "report compress upd replies errt oc jes myerr je =
     (case report_loop compress upd replies oc jes 0 je of
        ((job', err'), worked, tr) \<Rightarrow>
          if \<not> worked
          then (job', Some (rerun_error (Cmd job') err' errt), tr @ [TriggerBehaviours False])
          else (job', myerr, tr))"

text \<open>
  The call of the method that the outcome selects, the job that the first \<open>i\<close> calls
  leave, and the call with \<open>retryNum = i\<close>, made on that job. These say what the loop
  has done to the job; they are written with \<open>Bury\<close>, \<open>Release\<close> and \<open>Archive\<close>
  themselves.
\<close>

definition method_call ::
  "disposition \<Rightarrow> compressor \<Rightarrow> (Job \<Rightarrow> Job) \<Rightarrow> reply \<Rightarrow> Job \<Rightarrow> JobEndState \<Rightarrow> string
   \<Rightarrow> Job \<times> error" where
  "method_call d compress upd rep job jes fr =
     (case d of
        DoBury \<Rightarrow> Bury compress rep job (Some jes) fr []
      | DoRelease \<Rightarrow> Release compress upd rep job (Some jes) fr
      | DoArchive \<Rightarrow> Archive compress rep job (Some jes))"

fun job_after ::
  "disposition \<Rightarrow> compressor \<Rightarrow> (Job \<Rightarrow> Job) \<Rightarrow> (nat \<Rightarrow> reply) \<Rightarrow> JobEndState \<Rightarrow> string \<Rightarrow> Job
   \<Rightarrow> nat \<Rightarrow> Job" where
  "job_after d compress upd replies jes fr job 0 = job"
| "job_after d compress upd replies jes fr job (Suc i) =
     fst (method_call d compress upd (replies i)
            (job_after d compress upd replies jes fr job i) jes fr)"

definition nth_call ::
  "disposition \<Rightarrow> compressor \<Rightarrow> (Job \<Rightarrow> Job) \<Rightarrow> (nat \<Rightarrow> reply) \<Rightarrow> JobEndState \<Rightarrow> string \<Rightarrow> Job
   \<Rightarrow> nat \<Rightarrow> Job \<times> error" where
  "nth_call d compress upd replies jes fr job i =
     method_call d compress upd (replies i) (job_after d compress upd replies jes fr job i) jes fr"

section \<open>Execute: from Wait to the return\<close>

text \<open>
  \<open>myerr\<close> is \<open>nil\<close> after a command that exited with 0 and some error after any other;
  \<open>failure\<close> stands for the text of that error, which the classification composes with
  functions of other files. The errors of \<open>Kill\<close> and of closing the readers, of the
  behaviours and of the unmount are then appended to it, or take its place when it is
  \<open>nil\<close>.
\<close>

definition also_failed :: "error \<Rightarrow> string \<Rightarrow> error \<Rightarrow> error" where
  "also_failed myerr sep e =
     (case e of
        None \<Rightarrow> myerr
      | Some m \<Rightarrow> (case myerr of None \<Rightarrow> Some m | Some t \<Rightarrow> Some (t @ sep @ m)))"

definition myerr_at_behaviours :: "wait_error \<Rightarrow> string \<Rightarrow> error \<Rightarrow> error \<Rightarrow> error" where
  "myerr_at_behaviours err failure killErr closeErr =
     also_failed
       (also_failed (case err of WaitNil \<Rightarrow> None | ExitError \<Rightarrow> Some failure)
          ''; killing the cmd also failed: '' killErr)
       ''; closing stderr/out of the cmd also failed: '' closeErr"

definition myerr_at_report ::
  "wait_error \<Rightarrow> string \<Rightarrow> error \<Rightarrow> error \<Rightarrow> error \<Rightarrow> error \<Rightarrow> error" where
  "myerr_at_report err failure killErr closeErr berr unmountErr =
     also_failed
       (also_failed (myerr_at_behaviours err failure killErr closeErr)
          ''; behaviour(s) also had problem(s): '' berr)
       ''; unmounting also caused problem(s): '' unmountErr"

text \<open>
  \<open>Execute\<close> from the return of \<open>cmd.Wait()\<close> on. After a command that was waited for:
  the peak memory, the classification, \<open>TriggerBehaviours(myerr == nil)\<close> (its error is
  \<open>berr\<close>), \<open>Unmount\<close>, the end state, and the report; the result is the job, the error
  returned and the trace, which starts with the first call of \<open>TriggerBehaviours\<close>.

  After a wait that failed, \<open>cmd.ProcessState\<close> is \<open>nil\<close>. When \<open>peakmem\<close> is 0,
  \<open>cmd.ProcessState.SysUsage()\<close> dereferences it and \<open>Execute\<close> panics before the
  classification. Otherwise the classification sets \<open>abnormal\<close>, the behaviours are
  triggered with \<open>false\<close> and the unmount is done, and then
  \<open>cmd.ProcessState.SystemTime()\<close>, in the composite literal of the end state,
  dereferences it: \<open>Execute\<close> panics before the loop. The result is then the panic, the
  outcome that had been set, if any, and the trace so far.
\<close>

datatype panic = NilProcessState_SysUsage | NilProcessState_SystemTime

definition Execute_after_Wait ::
  "compressor \<Rightarrow> (Job \<Rightarrow> Job) \<Rightarrow> (nat \<Rightarrow> reply) \<Rightarrow> bool \<Rightarrow> int \<times> error \<Rightarrow> wait \<Rightarrow> string \<Rightarrow> error
   \<Rightarrow> error \<Rightarrow> error \<Rightarrow> error \<Rightarrow> error \<Rightarrow> string \<Rightarrow> string \<Rightarrow> string \<Rightarrow> supervisor \<Rightarrow> Job
   \<Rightarrow> (panic \<times> outcome option \<times> action list) + (Job \<times> error \<times> action list)" where
  "Execute_after_Wait compress upd replies darwin probe w failure killErr closeErr berr
       unmountErr errt actualCwd finalStdOut finalStdErr s job =
     (case w of
        WaitFailed msg \<Rightarrow>
          if peakmem s = 0 then Inl (NilProcessState_SysUsage, None, [])
          else Inl (NilProcessState_SystemTime, Some (after_unmount unmountErr abnormal),
                    [TriggerBehaviours False])
      | Waited err ps \<Rightarrow>
          (case report compress upd replies errt (decide err (ExitStatus ps) s unmountErr)
                  (final_state darwin (Maxrss ps) probe err (ExitStatus ps) unmountErr actualCwd
                     (SystemTime ps) finalStdOut finalStdErr s)
                  (myerr_at_report err failure killErr closeErr berr unmountErr)
                  (job, case err of WaitNil \<Rightarrow> None | ExitError \<Rightarrow> Some (StatusText ps)) of
             (job', e, tr) \<Rightarrow>
               Inr (job', e,
                    TriggerBehaviours (myerr_at_behaviours err failure killErr closeErr = None)
                    # tr)))"

text \<open>The trace of a run, and the arguments of the calls of \<open>TriggerBehaviours\<close> in a trace.\<close>

definition trace_of ::
  "(panic \<times> outcome option \<times> action list) + (Job \<times> error \<times> action list) \<Rightarrow> action list" where
  "trace_of r = (case r of Inl (p, oc, tr) \<Rightarrow> tr | Inr (job, e, tr) \<Rightarrow> tr)"

fun trace_behaviours :: "action list \<Rightarrow> bool list" where
  "trace_behaviours [] = []"
| "trace_behaviours (TriggerBehaviours b # tr) = b # trace_behaviours tr"
| "trace_behaviours (a # tr) = trace_behaviours tr"

section \<open>The end-state mutex\<close>

text \<open>
  Goroutines of one client that call \<open>Touch\<close> or one of \<open>Archive\<close>, \<open>Release\<close> and
  \<open>Bury\<close>, interleaved. A goroutine is a number; its program counter says where it is
  in the method it runs. The client has two mutexes, \<open>teMutex\<close> and the embedded one
  that \<open>request\<close> locks; each is free (\<open>None\<close>) or held by a goroutine.

  \<open>Touch\<close>: lock \<open>teMutex\<close>; \<open>request\<close> (lock, send and receive, unlock); unlock
  \<open>teMutex\<close>. An end-state method: \<open>ended\<close> (which, for an end state that exited, locks
  \<open>teMutex\<close>, updates the job and unlocks, and may return an error of \<open>compress\<close>);
  lock \<open>teMutex\<close>; \<open>request\<close>, unless \<open>compress\<close> fails in \<open>Bury\<close>; unlock \<open>teMutex\<close>.
\<close>

datatype pc =
    Idle
  | TouchLock | TouchRequest | TouchWire | TouchReplied
  | EndedLock | EndedUpdate
  | EndLock | EndRequest | EndWire | EndReplied

record mutexes =
  teMutex :: "nat option"
  reqMutex :: "nat option"
  at :: "nat \<Rightarrow> pc"

definition mutexes0 :: mutexes where
  "mutexes0 = \<lparr>teMutex = None, reqMutex = None, at = (\<lambda>g. Idle)\<rparr>"

text \<open>
  One step of a goroutine. An idle goroutine calls \<open>Touch\<close> or an end-state method
  (with an end state that exited, or not); a goroutine inside a method continues, or
  returns with the error of \<open>compress\<close> where the method can. \<open>Lock\<close> on a mutex that
  is held blocks: the step changes nothing. A schedule is the list of the steps taken,
  each by some goroutine.
\<close>

datatype move = CallTouch | CallEnd bool | Continue | ReturnError

fun go_step :: "mutexes \<Rightarrow> nat \<times> move \<Rightarrow> mutexes" where
  "go_step m (g, mv) =
     (case at m g of
        Idle \<Rightarrow>
          (case mv of
             CallTouch \<Rightarrow> m\<lparr>at := (at m)(g := TouchLock)\<rparr>
           | CallEnd exited \<Rightarrow> m\<lparr>at := (at m)(g := (if exited then EndedLock else EndLock))\<rparr>
           | _ \<Rightarrow> m)
      | TouchLock \<Rightarrow>
          (if teMutex m = None then m\<lparr>teMutex := Some g, at := (at m)(g := TouchRequest)\<rparr>
           else m)
      | TouchRequest \<Rightarrow>
          (if reqMutex m = None then m\<lparr>reqMutex := Some g, at := (at m)(g := TouchWire)\<rparr>
           else m)
      | TouchWire \<Rightarrow> m\<lparr>reqMutex := None, at := (at m)(g := TouchReplied)\<rparr>
      | TouchReplied \<Rightarrow> m\<lparr>teMutex := None, at := (at m)(g := Idle)\<rparr>
      | EndedLock \<Rightarrow>
          (if teMutex m = None then m\<lparr>teMutex := Some g, at := (at m)(g := EndedUpdate)\<rparr>
           else m)
      | EndedUpdate \<Rightarrow>
          (if mv = ReturnError then m\<lparr>teMutex := None, at := (at m)(g := Idle)\<rparr>
           else m\<lparr>teMutex := None, at := (at m)(g := EndLock)\<rparr>)
      | EndLock \<Rightarrow>
          (if teMutex m = None then m\<lparr>teMutex := Some g, at := (at m)(g := EndRequest)\<rparr>
           else m)
      | EndRequest \<Rightarrow>
          (if mv = ReturnError then m\<lparr>teMutex := None, at := (at m)(g := Idle)\<rparr>
           else if reqMutex m = None
           then m\<lparr>reqMutex := Some g, at := (at m)(g := EndWire)\<rparr>
           else m)
      | EndWire \<Rightarrow> m\<lparr>reqMutex := None, at := (at m)(g := EndReplied)\<rparr>
      | EndReplied \<Rightarrow> m\<lparr>teMutex := None, at := (at m)(g := Idle)\<rparr>)"

declare go_step.simps [simp del]

definition go_run :: "(nat \<times> move) list \<Rightarrow> mutexes" where
  "go_run schedule = foldl go_step mutexes0 schedule"

text \<open>
  A goroutine is between \<open>teMutex.Lock()\<close> and \<open>teMutex.Unlock()\<close> of \<open>Touch\<close>, or of the
  second critical section of an end-state method: the section that holds the request.
\<close>

definition in_Touch :: "mutexes \<Rightarrow> nat \<Rightarrow> bool" where
  "in_Touch m g = (at m g = TouchRequest \<or> at m g = TouchWire \<or> at m g = TouchReplied)"

definition in_end :: "mutexes \<Rightarrow> nat \<Rightarrow> bool" where
  "in_end m g = (at m g = EndRequest \<or> at m g = EndWire \<or> at m g = EndReplied)"

text \<open>The program points at which a goroutine has locked \<open>teMutex\<close> and not yet unlocked it.\<close>

fun holds_teMutex :: "pc \<Rightarrow> bool" where
  "holds_teMutex TouchRequest = True"
| "holds_teMutex TouchWire = True"
| "holds_teMutex TouchReplied = True"
| "holds_teMutex EndedUpdate = True"
| "holds_teMutex EndRequest = True"
| "holds_teMutex EndWire = True"
| "holds_teMutex EndReplied = True"
| "holds_teMutex p = False"

section \<open>The specification's table and predicates\<close>

text \<open>
  The precedence table of the specification for the outcome of a run, first match wins.
  The exit code is \<open>None\<close> when \<open>cmd.Wait()\<close> failed without an exit status. This table
  is written from the specification, to be compared with \<open>classify\<close>.
\<close>

definition precedence_table :: "int option \<Rightarrow> supervisor \<Rightarrow> disposition \<times> string" where
  "precedence_table code s =
     (if code = Some 126 then (DoBury, ''command permission problem'')
      else if code = Some 127 then (DoBury, ''command not found'')
      else if code = Some 128 then (DoBury, ''command invalid exit code'')
      else if code \<noteq> None \<and> code \<noteq> Some 0 \<and> ranoutMem s
        then (DoRelease, ''command used too much RAM'')
      else if code \<noteq> None \<and> code \<noteq> Some 0 \<and> signalled s \<and> ranoutTime s
        then (DoRelease, ''command used too much time'')
      else if code \<noteq> None \<and> code \<noteq> Some 0 \<and> signalled s
        then (DoRelease, ''runner received a signal to stop'')
      else if code \<noteq> None \<and> code \<noteq> Some 0 \<and> killCalled s
        then (DoBury, ''killed by user request'')
      else if code \<noteq> None \<and> code \<noteq> Some 0
        then (DoRelease, ''command exited non-zero'')
      else if code = None then (DoRelease, ''command failed to complete normally'')
      else (DoArchive, []))"

text \<open>
  What Go's \<open>os/exec\<close> guarantees about a command that was waited for: \<open>cmd.Wait()\<close>
  returns \<open>nil\<close> only for exit status 0, and an \<open>*exec.ExitError\<close> only for a process
  that did not succeed, whose \<open>ExitStatus()\<close> is then not 0 (it is \<open>-1\<close> for a process
  killed by a signal).
\<close>

definition wait_ok :: "wait_error \<Rightarrow> int \<Rightarrow> bool" where
  "wait_ok err status = (case err of WaitNil \<Rightarrow> status = 0 | ExitError \<Rightarrow> status \<noteq> 0)"

text \<open>An end state that is \<open>nil\<close> or whose \<open>Exited\<close> is false.\<close>

definition not_exited :: "JobEndState option \<Rightarrow> bool" where
  "not_exited jes = (case jes of None \<Rightarrow> True | Some e \<Rightarrow> \<not> jesExited e)"

text \<open>Two jobs agree on the fields that \<open>ended\<close> may write, \<open>StdErrC\<close> apart.\<close>

definition same_run_fields :: "Job \<Rightarrow> Job \<Rightarrow> bool" where
  "same_run_fields a b =
     (Exited a = Exited b \<and> Exitcode a = Exitcode b \<and> PeakRAM a = PeakRAM b
      \<and> CPUtime a = CPUtime b \<and> ActualCwd a = ActualCwd b \<and> StdOutC a = StdOutC b)"

text \<open>
  An event of the supervisory task that is no signal, no touch answered with a kill
  request, and no memory sample above the job's RAM.
\<close>

definition calm :: "int \<Rightarrow> event \<Rightarrow> bool" where
  "calm ram ev =
     (case ev of
        Sigs \<Rightarrow> False
      | Ticker now rep \<Rightarrow> \<not> fst (Touch rep)
      | MemTicker probe \<Rightarrow> snd probe \<noteq> None \<or> fst probe \<le> ram
      | StopChecking \<Rightarrow> True)"

section \<open>Concrete inputs\<close>

text \<open>
  A job as \<open>Reserve\<close> returns it, replies of the server, and a compressor that stores
  the bytes as they are (it satisfies the round-trip law and never fails); they serve to
  evaluate the definitions above.
\<close>

definition job0 :: Job where
  "job0 = \<lparr>Cmd = ''true'', Requirements = \<lparr>RAM = 100, Time = 60000000000\<rparr>, UntilBuried = 3,
            ActualCwd = [], Exited = False, Exitcode = 0, PeakRAM = 0, CPUtime = 0,
            StdOutC = [], StdErrC = [], FailReason = [], State = JobStateReserved\<rparr>"

definition reply_ok :: reply where
  "reply_ok = (\<lparr>RespJob = Some job0, KillCalled = False\<rparr>, None)"

definition reply_err :: reply where
  "reply_err = (\<lparr>RespJob = None, KillCalled = False\<rparr>, Some ''receive time out'')"

definition no_kill_reply :: reply where
  "no_kill_reply = (\<lparr>RespJob = None, KillCalled = False\<rparr>, None)"

definition store :: compressor where
  "store b = (b, None)"

definition failed_then_ok :: "reserve_call list" where
  "failed_then_ok = [CallReserve 0 reply_err, CallReserve 0 reply_ok]"

definition server_down :: "nat \<Rightarrow> reply" where
  "server_down i = reply_err"

definition two_failures :: "nat \<Rightarrow> reply" where
  "two_failures i = (if i < 2 then reply_err else reply_ok)"

definition jes1 :: JobEndState where
  "jes1 = end_state [] (decide ExitError 1 supervisor0 None) 12 0 [] ''boom''"

definition exited_0 :: ProcessState where
  "exited_0 = \<lparr>ExitStatus = 0, Maxrss = 2048, SystemTime = 0, StatusText = ''exit status 0''\<rparr>"

definition exited_1 :: ProcessState where
  "exited_1 = \<lparr>ExitStatus = 1, Maxrss = 2048, SystemTime = 0, StatusText = ''exit status 1''\<rparr>"

definition archived :: outcome where
  "archived = classify WaitNil 0 supervisor0"

text \<open>
  A run of the supervisory task for a job with 60 s of \<open>Time\<close> and 100 MiB of \<open>RAM\<close>: the
  touch tick comes a second after \<open>endT\<close>; the last memory tick comes after the stop.
\<close>

definition ticks :: "event list" where
  "ticks = [MemTicker (40, None), Ticker 61000000000 no_kill_reply,
            MemTicker (0, Some ''no smaps''), MemTicker (55, None), StopChecking,
            MemTicker (70, None)]"

text \<open>
  A schedule of two goroutines: goroutine 0 calls an end-state method and runs \<open>ended\<close>;
  goroutine 1 calls \<open>Touch\<close>, is blocked until \<open>ended\<close> has unlocked, then locks and
  sends its request; goroutine 0, blocked in turn, waits for \<open>teMutex\<close>.
\<close>

definition touching_while_ending :: "(nat \<times> move) list" where
  "touching_while_ending =
     [(0, CallEnd True), (0, Continue), (1, CallTouch), (1, Continue), (0, Continue),
      (1, Continue), (1, Continue), (0, Continue)]"

section \<open>Properties\<close>

subsection \<open>Substrings\<close>

lemma Contains_iff: "Contains s substr \<longleftrightarrow> (\<exists>u v. s = u @ substr @ v)"
proof (induction s)
  case Nil
  show ?case by auto
next
  case (Cons c cs)
  show ?case
  proof
    assume "Contains (c # cs) substr"
    then consider "prefix substr (c # cs)" | "Contains cs substr" by auto
    then show "\<exists>u v. c # cs = u @ substr @ v"
    proof cases
      case 1
      then obtain v where "c # cs = substr @ v" by (auto simp: prefix_def)
      then have "c # cs = [] @ substr @ v" by simp
      then show ?thesis by blast
    next
      case 2
      with Cons.IH obtain u v where "cs = u @ substr @ v" by blast
      then have "c # cs = (c # u) @ substr @ v" by simp
      then show ?thesis by blast
    qed
  next
    assume "\<exists>u v. c # cs = u @ substr @ v"
    then obtain u v where uv: "c # cs = u @ substr @ v" by blast
    show "Contains (c # cs) substr"
    proof (cases u)
      case Nil
      with uv have "prefix substr (c # cs)" by (simp add: prefix_def)
      then show ?thesis by simp
    next
      case (Cons a u')
      with uv have "cs = u' @ substr @ v" by simp
      with Cons.IH have "Contains cs substr" by blast
      then show ?thesis by simp
    qed
  qed
qed

lemmas FailReason_defs =
  FailReasonCPerm_def FailReasonCFound_def FailReasonCExit_def FailReasonExit_def
  FailReasonRAM_def FailReasonTime_def FailReasonAbnormal_def FailReasonSignal_def
  FailReasonUpload_def FailReasonKilled_def

subsection \<open>The pipefail prefix\<close>

text \<open>
  C8. For every command string, the third argument handed to the shell is the command
  prefixed with \<open>set -o pipefail; \<close> exactly when the command contains the three
  characters space, pipe, space somewhere; otherwise it is the command itself, unchanged.
\<close>

theorem pipefail_iff_contains_pipe:
  "exec_Command shell job = [shell, ''-c'', shell_jc (Cmd job)]
   \<and> (shell_jc cmd = ''set -o pipefail; '' @ cmd \<longleftrightarrow> (\<exists>u v. cmd = u @ '' | '' @ v))
   \<and> ((\<exists>u v. cmd = u @ '' | '' @ v) \<or> shell_jc cmd = cmd)"
proof -
  have longer: "cmd \<noteq> ''set -o pipefail; '' @ cmd"
  proof
    assume "cmd = ''set -o pipefail; '' @ cmd"
    then have "length cmd = length (''set -o pipefail; '' @ cmd)" by (rule arg_cong)
    then show False by simp
  qed
  have args: "exec_Command shell job = [shell, ''-c'', shell_jc (Cmd job)]"
    by (simp add: exec_Command_def)
  show ?thesis
  proof (cases "Contains cmd '' | ''")
    case True
    then have split: "\<exists>u v. cmd = u @ '' | '' @ v"
      by (simp only: Contains_iff)
    from True have "shell_jc cmd = ''set -o pipefail; '' @ cmd"
      by (simp add: shell_jc_def pipefail_def)
    with split args show ?thesis by blast
  next
    case False
    then have nosplit: "\<not> (\<exists>u v. cmd = u @ '' | '' @ v)"
      by (simp add: Contains_iff)
    from False have "shell_jc cmd = cmd"
      by (simp add: shell_jc_def)
    with nosplit args longer show ?thesis by metis
  qed
qed

theorem pipefail_iff_contains_pipe_witness:
  "exec_Command ''bash'' (job0\<lparr>Cmd := ''cat in | sort''\<rparr>)
     = [''bash'', ''-c'', ''set -o pipefail; cat in | sort'']
   \<and> shell_jc ''cat in |sort'' = ''cat in |sort''"
proof -
  have "\<not> (\<exists>u v. ''cat in |sort'' = u @ '' | '' @ v)"
    by (simp only: Contains_iff [symmetric]) simp
  moreover have "\<exists>u v. ''cat in | sort'' = u @ '' | '' @ v"
    by (simp only: Contains_iff [symmetric]) simp
  ultimately show ?thesis
    using pipefail_iff_contains_pipe [of "''bash''" "job0\<lparr>Cmd := ''cat in | sort''\<rparr>" "''cat in |sort''"]
      pipefail_iff_contains_pipe [of "''bash''" "job0\<lparr>Cmd := ''cat in | sort''\<rparr>" "''cat in | sort''"]
    by simp
qed

subsection \<open>The first reserve\<close>

lemma reserve_run_length: "length (reserve_run c calls) = length calls"
  by (induction c calls rule: reserve_run.induct)
     (auto simp: Reserve_def ReserveScheduled_def Let_def split: option.splits)

lemma reserve_run_reserved:
  "hasReserved c \<Longrightarrow> map (FirstReserve \<circ> fst) (reserve_run c calls) = replicate (length calls) False"
  by (induction c calls rule: reserve_run.induct)
     (auto simp: Reserve_def ReserveScheduled_def Let_def split: option.splits)

lemma reserve_run_flags:
  "map (FirstReserve \<circ> fst) (reserve_run c (call # calls))
     = (\<not> hasReserved c) # replicate (length calls) False"
  by (cases call)
     (auto simp: Reserve_def ReserveScheduled_def Let_def reserve_run_reserved split: option.splits)

text \<open>
  C4, as amended. For every client that \<open>Connect\<close> built and every sequence of \<open>Reserve\<close>
  and \<open>ReserveScheduled\<close> calls on it, whatever the server replies, one request is sent
  per call, and the request carries \<open>FirstReserve = true\<close> on the first call and on no
  other: the flag \<open>hasReserved\<close> is set before the request is made, whether or not the
  call then succeeds.
\<close>

theorem FirstReserve_first_call_only:
  "i < length calls \<Longrightarrow>
   length (reserve_run new_Client calls) = length calls
   \<and> FirstReserve (fst (reserve_run new_Client calls ! i)) = (i = 0)"
proof -
  assume i: "i < length calls"
  then obtain call rest where calls: "calls = call # rest" by (cases calls) auto
  have "FirstReserve (fst (reserve_run new_Client calls ! i))
          = map (FirstReserve \<circ> fst) (reserve_run new_Client calls) ! i"
    using i by (simp add: reserve_run_length)
  also have "\<dots> = (True # replicate (length rest) False) ! i"
    unfolding calls reserve_run_flags by (simp add: new_Client_def)
  also have "\<dots> = (i = 0)"
    using i calls by (cases i) auto
  finally show ?thesis by (simp add: reserve_run_length)
qed

theorem FirstReserve_first_call_only_witness:
  "(1::nat) < length failed_then_ok
   \<and> length (reserve_run new_Client failed_then_ok) = length failed_then_ok
   \<and> FirstReserve (fst (reserve_run new_Client failed_then_ok ! 1)) = ((1::nat) = 0)"
  using FirstReserve_first_call_only [of 1 failed_then_ok]
  by (simp add: failed_then_ok_def)

text \<open>
  The claim as it was stated fails when the first call fails: the failed call carried the
  flag, and the first successful call, the second one, does not.
\<close>

theorem FirstReserve_first_successful_counterexample:
  "\<not> successful (reserve_run new_Client failed_then_ok ! 0)
   \<and> FirstReserve (fst (reserve_run new_Client failed_then_ok ! 0))
   \<and> successful (reserve_run new_Client failed_then_ok ! 1)
   \<and> \<not> FirstReserve (fst (reserve_run new_Client failed_then_ok ! 1))"
  by (simp add: failed_then_ok_def new_Client_def reply_ok_def reply_err_def Reserve_def
      successful_def)

subsection \<open>What to do with the job\<close>

text \<open>
  C1. After a command that was waited for, with the error and the exit status that Go's
  \<open>os/exec\<close> pairs, the method the report loop will call and the fail reason are those
  of the first matching row of the precedence table: 126, 127 and 128 bury with their
  own reasons; any other non-zero exit releases for RAM, for time (signalled after
  running out of time), for a signal, buries for a kill request, and otherwise releases
  for a non-zero exit, in this order; exit code 0 archives with no fail reason; the
  exit code kept is the collected one. For a wait that failed, without exit status,
  the table says release, as abnormal, and the \<open>else\<close> branch of the classification
  sets just that with exit code 255; but \<open>Execute\<close> then panics on the \<open>nil\<close>
  \<open>cmd.ProcessState\<close>, before the classification when \<open>peakmem\<close> is 0 and before the
  report loop otherwise, and calls none of \<open>Bury\<close>, \<open>Release\<close> and \<open>Archive\<close>.
\<close>

theorem classify_first_match:
  "(wait_ok err status \<longrightarrow>
      disposition_of (classify err status s) = Some (fst (precedence_table (Some status) s))
      \<and> failreason (classify err status s) = snd (precedence_table (Some status) s)
      \<and> exitcode (classify err status s) = status)
   \<and> precedence_table None s = (DoRelease, ''command failed to complete normally'')
   \<and> disposition_of abnormal = Some DoRelease
   \<and> failreason abnormal = ''command failed to complete normally''
   \<and> exitcode abnormal = 255
   \<and> Execute_after_Wait compress upd replies darwin probe (WaitFailed msg) failure killErr
         closeErr berr unmountErr errt actualCwd finalStdOut finalStdErr s job
       = (if peakmem s = 0 then Inl (NilProcessState_SysUsage, None, [])
          else Inl (NilProcessState_SystemTime, Some (after_unmount unmountErr abnormal),
                    [TriggerBehaviours False]))
   \<and> trace_calls (trace_of (Execute_after_Wait compress upd replies darwin probe (WaitFailed msg)
         failure killErr closeErr berr unmountErr errt actualCwd finalStdOut finalStdErr s job))
       = []"
proof -
  have rows: "wait_ok err status \<longrightarrow>
      disposition_of (classify err status s) = Some (fst (precedence_table (Some status) s))
      \<and> failreason (classify err status s) = snd (precedence_table (Some status) s)
      \<and> exitcode (classify err status s) = status"
    by (cases err; simp add: wait_ok_def classify_def precedence_table_def
          disposition_of_def outcome0_def Let_def FailReason_defs)
  have table: "precedence_table None s = (DoRelease, ''command failed to complete normally'')"
    by (simp add: precedence_table_def)
  have set: "disposition_of abnormal = Some DoRelease
      \<and> failreason abnormal = ''command failed to complete normally''
      \<and> exitcode abnormal = 255"
    by (simp add: abnormal_def disposition_of_def outcome0_def FailReasonAbnormal_def)
  have panics: "Execute_after_Wait compress upd replies darwin probe (WaitFailed msg) failure
         killErr closeErr berr unmountErr errt actualCwd finalStdOut finalStdErr s job
       = (if peakmem s = 0 then Inl (NilProcessState_SysUsage, None, [])
          else Inl (NilProcessState_SystemTime, Some (after_unmount unmountErr abnormal),
                    [TriggerBehaviours False]))"
    by (simp add: Execute_after_Wait_def)
  have none: "trace_calls (trace_of (Execute_after_Wait compress upd replies darwin probe
         (WaitFailed msg) failure killErr closeErr berr unmountErr errt actualCwd finalStdOut
         finalStdErr s job)) = []"
    unfolding panics by (simp add: trace_of_def)
  from rows table set panics none show ?thesis by blast
qed

theorem classify_first_match_witness:
  "wait_ok ExitError 1
   \<and> disposition_of (classify ExitError 1 (supervisor0\<lparr>signalled := True, ranoutTime := True\<rparr>))
       = Some DoRelease
   \<and> failreason (classify ExitError 1 (supervisor0\<lparr>signalled := True, ranoutTime := True\<rparr>))
       = ''command used too much time''
   \<and> Execute_after_Wait store id server_down False (20, None)
         (WaitFailed ''wait: no child processes'') [] None None None None None [] [] []
         (supervisor0\<lparr>signalled := True, ranoutTime := True\<rparr>) job0
       = Inl (NilProcessState_SysUsage, None, [])"
  using classify_first_match [where err = ExitError and status = 1
      and s = "supervisor0\<lparr>signalled := True, ranoutTime := True\<rparr>"
      and compress = store and upd = id and replies = server_down and darwin = False
      and probe = "(20, None)" and msg = "''wait: no child processes''" and failure = "[]"
      and killErr = None and closeErr = None and berr = None and unmountErr = None
      and errt = None and actualCwd = "[]" and finalStdOut = "[]" and finalStdErr = "[]"
      and job = job0]
  by (simp add: wait_ok_def precedence_table_def supervisor0_def)

subsection \<open>An upload failure at unmount\<close>

text \<open>
  C7. When \<open>Unmount\<close> returns an error whose text contains \<open>failed to upload\<close>, a job
  that was to be buried is still buried and any other job is released (so an archive
  becomes a release); the fail reason becomes the upload reason exactly when it was
  empty, and is kept otherwise; the exit code becomes \<open>-2\<close> exactly when it was 0, and is
  kept otherwise.
\<close>

theorem unmount_upload_failure:
  assumes "\<exists>u v. msg = u @ ''failed to upload'' @ v"
  shows "disposition_of (after_unmount (Some msg) oc)
           = (if disposition_of oc = Some DoBury then Some DoBury else Some DoRelease)
         \<and> failreason (after_unmount (Some msg) oc)
           = (if failreason oc = [] then ''failed to upload files to remote file system''
              else failreason oc)
         \<and> exitcode (after_unmount (Some msg) oc)
           = (if exitcode oc = 0 then - 2 else exitcode oc)"
proof -
  from assms have "Contains msg ''failed to upload''"
    by (simp only: Contains_iff)
  then show ?thesis
    by (simp add: after_unmount_def disposition_of_def Let_def FailReasonUpload_def)
qed

theorem unmount_upload_failure_witness:
  "(\<exists>u v. ''failed to upload 3 files'' = u @ ''failed to upload'' @ v)
   \<and> disposition_of archived = Some DoArchive
   \<and> disposition_of (after_unmount (Some ''failed to upload 3 files'') archived) = Some DoRelease
   \<and> failreason (after_unmount (Some ''failed to upload 3 files'') archived)
       = ''failed to upload files to remote file system''
   \<and> exitcode (after_unmount (Some ''failed to upload 3 files'') archived) = - 2"
proof -
  have ex: "\<exists>u v. ''failed to upload 3 files'' = u @ ''failed to upload'' @ v"
    by (simp only: Contains_iff [symmetric]) simp
  show ?thesis
    using unmount_upload_failure [OF ex, of archived] ex
    by (simp add: archived_def classify_def outcome0_def disposition_of_def)
qed

subsection \<open>End states that did not exit\<close>

lemma ended_not_exited: "not_exited jes \<Longrightarrow> ended compress job jes = (job, None)"
  by (auto simp: not_exited_def ended_def split: option.splits)

text \<open>
  C10, as amended. With an end state that is \<open>nil\<close> or whose \<open>Exited\<close> is false, \<open>ended\<close>
  returns \<open>nil\<close> and the job as it was. \<open>Archive\<close> then leaves \<open>Exited\<close>, \<open>Exitcode\<close>,
  \<open>PeakRAM\<close>, \<open>CPUtime\<close>, \<open>ActualCwd\<close>, \<open>StdOutC\<close> and \<open>StdErrC\<close> as they were, and so
  does \<open>Release\<close> provided that \<open>updateRecsAfterFailure\<close> does not write them. \<open>Bury\<close>
  leaves the first six as they were; its \<open>StdErrC\<close> is what \<open>compress\<close> returns for the
  text of the optional \<open>stderr\<close> error when exactly one error that is not \<open>nil\<close> is
  passed, and is as it was otherwise.
\<close>

theorem ended_not_exited_frame:
  assumes "not_exited jes"
  shows "ended compress job jes = (job, None)
         \<and> same_run_fields job (fst (Archive compress rep job jes))
         \<and> StdErrC (fst (Archive compress rep job jes)) = StdErrC job
         \<and> ((\<forall>j. same_run_fields j (upd j) \<and> StdErrC (upd j) = StdErrC j) \<longrightarrow>
              same_run_fields job (fst (Release compress upd rep job jes fr))
              \<and> StdErrC (fst (Release compress upd rep job jes fr)) = StdErrC job)
         \<and> same_run_fields job (fst (Bury compress rep job jes fr stderr))
         \<and> StdErrC (fst (Bury compress rep job jes fr stderr))
             = (case stderr of [Some m] \<Rightarrow> fst (compress m) | _ \<Rightarrow> StdErrC job)"
proof -
  note e = ended_not_exited [OF assms]
  have a: "same_run_fields job (fst (Archive compress rep job jes))
           \<and> StdErrC (fst (Archive compress rep job jes)) = StdErrC job"
    by (simp add: Archive_def e same_run_fields_def split: option.splits)
  have r: "(\<forall>j. same_run_fields j (upd j) \<and> StdErrC (upd j) = StdErrC j) \<longrightarrow>
              same_run_fields job (fst (Release compress upd rep job jes fr))
              \<and> StdErrC (fst (Release compress upd rep job jes fr)) = StdErrC job"
  proof
    assume u: "\<forall>j. same_run_fields j (upd j) \<and> StdErrC (upd j) = StdErrC j"
    let ?j2 = "job\<lparr>FailReason := fr\<rparr>"
    let ?j3 = "upd (?j2\<lparr>UntilBuried := UntilBuried ?j2 - 1\<rparr>)"
    from u have "same_run_fields (?j2\<lparr>UntilBuried := UntilBuried ?j2 - 1\<rparr>) ?j3"
      and "StdErrC ?j3 = StdErrC (?j2\<lparr>UntilBuried := UntilBuried ?j2 - 1\<rparr>)"
      by blast+
    then show "same_run_fields job (fst (Release compress upd rep job jes fr))
              \<and> StdErrC (fst (Release compress upd rep job jes fr)) = StdErrC job"
      by (simp add: Release_def e same_run_fields_def Let_def split: option.splits)
  qed
  have b: "same_run_fields job (fst (Bury compress rep job jes fr stderr))
         \<and> StdErrC (fst (Bury compress rep job jes fr stderr))
             = (case stderr of [Some m] \<Rightarrow> fst (compress m) | _ \<Rightarrow> StdErrC job)"
    by (simp add: Bury_def e same_run_fields_def Let_def split: option.splits list.splits)
  from e a r b show ?thesis by blast
qed

theorem ended_not_exited_frame_witness:
  "not_exited None
   \<and> (\<forall>j. same_run_fields j (id j) \<and> StdErrC (id j) = StdErrC j)
   \<and> ended store job0 None = (job0, None)
   \<and> same_run_fields job0 (fst (Release store id reply_ok job0 None ''command failed to start''))
   \<and> StdErrC (fst (Release store id reply_ok job0 None ''command failed to start'')) = StdErrC job0
   \<and> same_run_fields job0 (fst (Bury store reply_ok job0 None ''command failed to start'' []))
   \<and> StdErrC (fst (Bury store reply_ok job0 None ''command failed to start'' [])) = StdErrC job0"
proof -
  have h: "not_exited None"
    by (simp add: not_exited_def)
  have u: "\<forall>j. same_run_fields j (id j) \<and> StdErrC (id j) = StdErrC j"
    by (simp add: same_run_fields_def)
  from ended_not_exited_frame [OF h, of store job0 reply_ok id "''command failed to start''" "[]"] u h
  show ?thesis by simp
qed

text \<open>
  The claim as it was stated fails for \<open>Bury\<close>: called with a \<open>nil\<close> end state and an
  error for \<open>stderr\<close>, as \<open>Execute\<close> does when the working directory cannot be created, it
  writes \<open>StdErrC\<close>.
\<close>

theorem Bury_stderr_counterexample:
  "not_exited None
   \<and> StdErrC (fst (Bury store reply_ok job0 None ''working directory does not exist''
                    [Some ''could not create working directory: permission denied'']))
       \<noteq> StdErrC job0"
  by (simp add: not_exited_def Bury_def ended_def store_def job0_def reply_ok_def)

subsection \<open>Release and the retries left\<close>

lemma ended_UntilBuried_State:
  "UntilBuried (fst (ended compress job jes)) = UntilBuried job
   \<and> State (fst (ended compress job jes)) = State job"
  by (simp add: ended_def Let_def split: option.splits prod.splits)

text \<open>
  C5. Provided that \<open>updateRecsAfterFailure\<close> does not write \<open>UntilBuried\<close>: when
  \<open>ended\<close> and the request of \<open>Release\<close> succeed, \<open>Release\<close> returns \<open>nil\<close>, \<open>UntilBuried\<close>
  is one less than before if the job, as \<open>ended\<close> left it, has \<open>Exited\<close> true and an
  \<open>Exitcode\<close> other than 0, and is as before otherwise; the state is then buried if
  \<open>UntilBuried\<close> is at most 0 and delayed otherwise. When \<open>ended\<close> or the request
  fails, \<open>Release\<close> returns an error and leaves \<open>UntilBuried\<close> and the state as they
  were.
\<close>

theorem Release_UntilBuried:
  assumes "\<forall>j. UntilBuried (upd j) = UntilBuried j"
  shows "(snd (ended compress job jes) = None \<and> snd rep = None \<longrightarrow>
            snd (Release compress upd rep job jes fr) = None
            \<and> UntilBuried (fst (Release compress upd rep job jes fr))
                = (if Exited (fst (ended compress job jes))
                      \<and> Exitcode (fst (ended compress job jes)) \<noteq> 0
                   then UntilBuried job - 1 else UntilBuried job)
            \<and> State (fst (Release compress upd rep job jes fr))
                = (if UntilBuried (fst (Release compress upd rep job jes fr)) \<le> 0
                   then JobStateBuried else JobStateDelayed))
         \<and> (snd (ended compress job jes) \<noteq> None \<or> snd rep \<noteq> None \<longrightarrow>
            snd (Release compress upd rep job jes fr) \<noteq> None
            \<and> UntilBuried (fst (Release compress upd rep job jes fr)) = UntilBuried job
            \<and> State (fst (Release compress upd rep job jes fr)) = State job)"
proof -
  obtain j1 e1 where e: "ended compress job jes = (j1, e1)"
    by (cases "ended compress job jes")
  from ended_UntilBuried_State [of compress job jes] e
  have j1: "UntilBuried j1 = UntilBuried job" "State j1 = State job" by simp_all
  show ?thesis
    using assms j1 by (cases e1; cases "snd rep") (simp_all add: Release_def e Let_def)
qed

lemma ended_jes1: "ended store job0 (Some jes1)
   = (job0\<lparr>Exited := True, Exitcode := 1, PeakRAM := 12, StdErrC := ''boom''\<rparr>, None)"
  by (simp add: ended_def jes1_def end_state_def decide_def after_unmount_def classify_def
      outcome0_def store_def job0_def Let_def)

theorem Release_UntilBuried_witness:
  "(\<forall>j. UntilBuried (id j) = UntilBuried j)
   \<and> snd (ended store job0 (Some jes1)) = None \<and> snd reply_ok = None \<and> snd reply_err \<noteq> None
   \<and> UntilBuried job0 = 3
   \<and> UntilBuried (fst (Release store id reply_ok job0 (Some jes1) FailReasonExit)) = 2
   \<and> State (fst (Release store id reply_ok job0 (Some jes1) FailReasonExit)) = JobStateDelayed
   \<and> UntilBuried (fst (Release store id reply_err job0 (Some jes1) FailReasonExit)) = 3
   \<and> State (fst (Release store id reply_err job0 (Some jes1) FailReasonExit)) = State job0"
proof -
  have u: "\<forall>j. UntilBuried (id j) = UntilBuried j" by simp
  have ub: "UntilBuried job0 = 3" by (simp add: job0_def)
  from Release_UntilBuried [OF u, of store job0 "Some jes1" reply_ok FailReasonExit]
    Release_UntilBuried [OF u, of store job0 "Some jes1" reply_err FailReasonExit] ub
  show ?thesis
    by (simp add: ended_jes1 reply_ok_def reply_err_def id_def)
qed

subsection \<open>The supervisory task\<close>

lemma supervise_all_Cons:
  "supervise_all endT ram s (ev # evs) = supervise_all endT ram (supervise endT ram s ev) evs"
  by (simp add: supervise_all_def)

lemma supervise_all_Nil: "supervise_all endT ram s [] = s"
  by (simp add: supervise_all_def)

lemma peakmem_supervise: "peakmem s \<le> peakmem (supervise endT ram s ev)"
  by (cases ev) (auto simp: supervise_def Let_def split: prod.splits)

lemma peakmem_supervise_all: "peakmem s \<le> peakmem (supervise_all endT ram s evs)"
proof (induction evs arbitrary: s)
  case Nil
  show ?case by (simp add: supervise_all_Nil)
next
  case (Cons ev evs)
  have "peakmem s \<le> peakmem (supervise endT ram s ev)" by (rule peakmem_supervise)
  also have "\<dots> \<le> peakmem (supervise_all endT ram (supervise endT ram s ev) evs)" by (rule Cons.IH)
  finally show ?case by (simp add: supervise_all_Cons)
qed

lemma sample_supervise:
  "looping s \<Longrightarrow> mem \<le> peakmem (supervise endT ram s (MemTicker (mem, None)))"
  by (auto simp: supervise_def Let_def)

lemma samples_le_peakmem:
  "m \<in> set (samples endT ram s evs) \<Longrightarrow> m \<le> peakmem (supervise_all endT ram s evs)"
proof (induction evs arbitrary: s)
  case Nil
  then show ?case by simp
next
  case (Cons ev evs)
  let ?s' = "supervise endT ram s ev"
  from Cons.prems consider
      (here) "looping s" "ev = MemTicker (m, None)"
    | (later) "m \<in> set (samples endT ram ?s' evs)"
    by (auto split: event.splits prod.splits option.splits if_splits)
  then show ?case
  proof cases
    case here
    then have "m \<le> peakmem ?s'" by (simp add: sample_supervise)
    also have "\<dots> \<le> peakmem (supervise_all endT ram ?s' evs)" by (rule peakmem_supervise_all)
    finally show ?thesis by (simp add: supervise_all_Cons)
  next
    case later
    then show ?thesis by (simp add: supervise_all_Cons Cons.IH)
  qed
qed

lemma kills_supervise_calm: "calm ram ev \<Longrightarrow> kills (supervise endT ram s ev) = kills s"
  by (cases ev) (auto simp: calm_def supervise_def Let_def split: prod.splits)

lemma kills_supervise_all_calm:
  "\<forall>ev \<in> set evs. calm ram ev \<Longrightarrow> kills (supervise_all endT ram s evs) = kills s"
  by (induction evs arbitrary: s)
     (simp_all add: supervise_all_Nil supervise_all_Cons kills_supervise_calm)

lemma archive_whatever:
  "disposition_of (classify WaitNil 0 s) = Some DoArchive \<and> failreason (classify WaitNil 0 s) = []"
  by (simp add: classify_def disposition_of_def outcome0_def)

lemma ticks_run:
  "supervise_all 60000000000 100 supervisor0 ticks
     = supervisor0\<lparr>peakmem := 55, ranoutTime := True, looping := False\<rparr>"
  by (simp add: ticks_def supervisor0_def supervise_def supervise_all_def no_kill_reply_def
      Touch_def)

lemma ticks_samples: "samples 60000000000 100 supervisor0 ticks = [40, 55]"
  by (simp add: ticks_def supervisor0_def supervise_def no_kill_reply_def Touch_def)

lemma ticks_calm: "\<forall>ev \<in> set ticks. calm 100 ev"
  by (simp add: ticks_def calm_def no_kill_reply_def Touch_def)

text \<open>
  C2. A touch tick after \<open>endT\<close> whose touch brings no kill request changes nothing but
  \<open>ranoutTime\<close>, which it sets: the child is not killed and the task goes on. A step of
  the task that calls \<open>Kill\<close> calls it once, and is the receipt of a signal, a touch
  answered with a kill request, or a successful memory sample above both the peak so far
  and the job's RAM. So a run of the task without signal, kill request or such a sample
  never kills, however late the clock; and when \<open>cmd.Wait()\<close> returns \<open>nil\<close> the job is
  classified for archive with no fail reason, whatever the task has latched, and
  \<open>Archive\<close> is what the report loop calls after an \<open>Unmount\<close> without error.
\<close>

theorem time_overrun_never_kills:
  "(looping s \<and> now > endT \<and> \<not> fst (Touch rep) \<longrightarrow>
      supervise endT ram s (Ticker now rep) = s\<lparr>ranoutTime := True\<rparr>)
   \<and> (kills (supervise endT ram s ev) \<noteq> kills s \<longrightarrow>
        kills (supervise endT ram s ev) = Suc (kills s)
        \<and> (ev = Sigs
           \<or> (\<exists>now rep. ev = Ticker now rep \<and> fst (Touch rep))
           \<or> (\<exists>mem. ev = MemTicker (mem, None) \<and> mem > peakmem s \<and> mem > ram)))
   \<and> ((\<forall>ev \<in> set evs. calm ram ev) \<longrightarrow> kills (supervise_all endT ram supervisor0 evs) = 0)
   \<and> disposition_of (classify WaitNil 0 (supervise_all endT ram supervisor0 evs)) = Some DoArchive
   \<and> failreason (classify WaitNil 0 (supervise_all endT ram supervisor0 evs)) = []
   \<and> disposition_of (decide WaitNil 0 (supervise_all endT ram supervisor0 evs) None)
       = Some DoArchive"
proof -
  have a: "looping s \<and> now > endT \<and> \<not> fst (Touch rep) \<longrightarrow>
      supervise endT ram s (Ticker now rep) = s\<lparr>ranoutTime := True\<rparr>"
    by (auto simp: supervise_def Let_def split: prod.splits)
  have b: "kills (supervise endT ram s ev) \<noteq> kills s \<longrightarrow>
        kills (supervise endT ram s ev) = Suc (kills s)
        \<and> (ev = Sigs
           \<or> (\<exists>now rep. ev = Ticker now rep \<and> fst (Touch rep))
           \<or> (\<exists>mem. ev = MemTicker (mem, None) \<and> mem > peakmem s \<and> mem > ram))"
    by (cases ev) (auto simp: supervise_def Let_def split: prod.splits if_splits)
  have c: "(\<forall>ev \<in> set evs. calm ram ev) \<longrightarrow> kills (supervise_all endT ram supervisor0 evs) = 0"
    by (simp add: kills_supervise_all_calm supervisor0_def)
  have d: "disposition_of (decide WaitNil 0 (supervise_all endT ram supervisor0 evs) None)
       = Some DoArchive"
    by (simp add: decide_def after_unmount_def archive_whatever)
  from a b c d archive_whatever show ?thesis by blast
qed

theorem time_overrun_never_kills_witness:
  "looping supervisor0 \<and> (61000000000::int) > 60000000000 \<and> \<not> fst (Touch no_kill_reply)
   \<and> supervise 60000000000 100 supervisor0 (Ticker 61000000000 no_kill_reply)
       = supervisor0\<lparr>ranoutTime := True\<rparr>
   \<and> kills (supervise 60000000000 100 supervisor0 Sigs) \<noteq> kills supervisor0
   \<and> ranoutTime (supervise_all 60000000000 100 supervisor0 ticks)
   \<and> kills (supervise_all 60000000000 100 supervisor0 ticks) = 0
   \<and> disposition_of (classify WaitNil 0 (supervise_all 60000000000 100 supervisor0 ticks))
       = Some DoArchive"
proof -
  have p: "looping supervisor0 \<and> (61000000000::int) > 60000000000 \<and> \<not> fst (Touch no_kill_reply)"
    by (simp add: supervisor0_def no_kill_reply_def Touch_def)
  have k: "kills (supervise 60000000000 100 supervisor0 Sigs) \<noteq> kills supervisor0"
    by (simp add: supervise_def supervisor0_def)
  have r: "ranoutTime (supervise_all 60000000000 100 supervisor0 ticks)"
    by (simp add: ticks_run)
  from time_overrun_never_kills [where s = supervisor0 and now = 61000000000
      and endT = 60000000000 and rep = no_kill_reply and ram = 100 and ev = Sigs and evs = ticks]
    p k r ticks_calm
  show ?thesis by blast
qed

subsection \<open>Peak memory\<close>

lemma quo_nonneg: "0 \<le> a \<Longrightarrow> 0 < b \<Longrightarrow> 0 \<le> quo a b"
  by (simp add: quo_def sgn_if pos_imp_zdiv_nonneg_iff)

lemma seed_ge: "0 \<le> maxrss \<Longrightarrow> 0 \<le> pm \<Longrightarrow> pm \<le> seed_peakmem darwin maxrss pm"
  by (simp add: seed_peakmem_def quo_nonneg)

text \<open>
  C3, as amended. Let the operating system report a \<open>Maxrss\<close> that is not negative and
  let the probe of the runner's own memory, when it succeeds, return a value that is not
  negative. Then the peak memory that \<open>Execute\<close> reports is at least every child sample
  the supervisory task took; it is the child's peak (the normalised \<open>Maxrss\<close> when that
  peak is 0) plus the runner's own memory, or plus 10 when the probe fails; and it is at
  least 10 when the probe fails. When the probe succeeds nothing bounds the report from
  below by 10. This value is the \<open>PeakRAM\<close> of the end state sent to the server.
\<close>

theorem reported_peakmem_bounds:
  assumes "0 \<le> maxrss" and "snd probe = None \<longrightarrow> 0 \<le> fst probe"
  shows "(\<forall>m \<in> set (samples endT ram supervisor0 evs).
            m \<le> reported_peakmem darwin maxrss probe (supervise_all endT ram supervisor0 evs))
         \<and> reported_peakmem darwin maxrss probe (supervise_all endT ram supervisor0 evs)
             = seed_peakmem darwin maxrss (peakmem (supervise_all endT ram supervisor0 evs))
               + (if snd probe \<noteq> None then 10 else fst probe)
         \<and> (snd probe \<noteq> None \<longrightarrow>
              10 \<le> reported_peakmem darwin maxrss probe (supervise_all endT ram supervisor0 evs))
         \<and> jesPeakRAM (final_state darwin maxrss probe err status unmountErr actualCwd cputime
                         finalStdOut finalStdErr (supervise_all endT ram supervisor0 evs))
             = reported_peakmem darwin maxrss probe (supervise_all endT ram supervisor0 evs)"
proof -
  let ?s = "supervise_all endT ram supervisor0 evs"
  have "peakmem supervisor0 \<le> peakmem ?s" by (rule peakmem_supervise_all)
  then have pos: "0 \<le> peakmem ?s" by (simp add: supervisor0_def)
  have seed: "peakmem ?s \<le> seed_peakmem darwin maxrss (peakmem ?s)"
    using assms(1) pos by (rule seed_ge)
  have eq: "reported_peakmem darwin maxrss probe ?s
              = seed_peakmem darwin maxrss (peakmem ?s) + (if snd probe \<noteq> None then 10 else fst probe)"
    by (simp add: reported_peakmem_def add_ourmem_def)
  have our: "0 \<le> (if snd probe \<noteq> None then 10 else fst probe)"
    using assms(2) by simp
  have 1: "\<forall>m \<in> set (samples endT ram supervisor0 evs). m \<le> reported_peakmem darwin maxrss probe ?s"
  proof
    fix m assume "m \<in> set (samples endT ram supervisor0 evs)"
    then have "m \<le> peakmem ?s" by (rule samples_le_peakmem)
    with seed our show "m \<le> reported_peakmem darwin maxrss probe ?s"
      unfolding eq by linarith
  qed
  have 3: "snd probe \<noteq> None \<longrightarrow> 10 \<le> reported_peakmem darwin maxrss probe ?s"
    using seed pos unfolding eq by auto
  have 4: "jesPeakRAM (final_state darwin maxrss probe err status unmountErr actualCwd cputime
                         finalStdOut finalStdErr ?s)
             = reported_peakmem darwin maxrss probe ?s"
    by (simp add: final_state_def end_state_def)
  from 1 eq 3 4 show ?thesis by blast
qed

theorem reported_peakmem_bounds_witness:
  "(0::int) \<le> 2048
   \<and> samples 60000000000 100 supervisor0 ticks = [40, 55]
   \<and> 55 \<le> reported_peakmem False 2048 (0, Some ''no smaps'')
              (supervise_all 60000000000 100 supervisor0 ticks)
   \<and> 10 \<le> reported_peakmem False 2048 (0, Some ''no smaps'')
              (supervise_all 60000000000 100 supervisor0 ticks)
   \<and> reported_peakmem False 2048 (0, Some ''no smaps'')
        (supervise_all 60000000000 100 supervisor0 ticks) = 65"
proof -
  have h1: "(0::int) \<le> 2048" by simp
  have h2: "snd (0::int, Some ''no smaps'') = None \<longrightarrow> 0 \<le> fst (0::int, Some ''no smaps'')"
    by simp
  have v: "reported_peakmem False 2048 (0, Some ''no smaps'')
        (supervise_all 60000000000 100 supervisor0 ticks) = 65"
    by (simp add: ticks_run reported_peakmem_def add_ourmem_def seed_peakmem_def)
  from reported_peakmem_bounds [OF h1 h2, of 60000000000 100 ticks False] h1 v ticks_samples
  show ?thesis by simp
qed

text \<open>
  The claim as it was stated fails when the probe succeeds with less than 10 MiB: a child
  that exits before the first memory tick with a \<open>Maxrss\<close> of 2048 kB, under a runner
  that measures 5 MiB for itself, is reported with 7 MiB.
\<close>

theorem reported_peakmem_below_10_counterexample:
  "samples 60000000000 100 supervisor0 [] = []
   \<and> reported_peakmem False 2048 (5, None) (supervise_all 60000000000 100 supervisor0 []) = 7
   \<and> \<not> 10 \<le> reported_peakmem False 2048 (5, None) (supervise_all 60000000000 100 supervisor0 [])"
  by (simp add: reported_peakmem_def add_ourmem_def seed_peakmem_def quo_def supervise_all_def
      supervisor0_def)

subsection \<open>Reporting the final state\<close>

lemma attempt_method:
  "disposition_of oc = Some d \<Longrightarrow>
   attempt compress upd rep oc jes je
     = (method_call d compress upd rep (fst je) jes (failreason oc), [Call d])"
  by (auto simp: attempt_def disposition_of_def method_call_def split: if_splits)

lemma method_call_reply_error:
  "snd rep \<noteq> None \<Longrightarrow> snd (method_call d compress upd rep job jes fr) \<noteq> None"
  by (cases d; cases "ended compress job (Some jes)"; cases "snd (ended compress job (Some jes))")
     (auto simp: method_call_def Bury_def Release_def Archive_def Let_def split: option.splits)

lemma method_call_State:
  "snd (method_call d compress upd rep job jes fr) = None \<Longrightarrow>
   State (fst (method_call d compress upd rep job jes fr))
     = (case d of
          DoBury \<Rightarrow> JobStateBuried
        | DoArchive \<Rightarrow> JobStateComplete
        | DoRelease \<Rightarrow>
            if UntilBuried (fst (method_call d compress upd rep job jes fr)) \<le> 0
            then JobStateBuried else JobStateDelayed)"
  by (cases d; cases "ended compress job (Some jes)"; cases "snd (ended compress job (Some jes))";
      cases "snd rep")
     (auto simp: method_call_def Bury_def Release_def Archive_def Let_def split: option.splits)

lemma retries_Suc: "k < n \<Longrightarrow> retries d k n = [Call d, Sleep (k * 100)] @ retries d (Suc k) n"
  by (simp add: retries_def upt_conv_Cons)

lemma retries_same: "retries d k k = []"
  by (simp add: retries_def)

lemma report_loop_calls:
  assumes d: "disposition_of oc = Some d"
  shows "k \<le> maxRetries \<Longrightarrow>
    \<exists>n. k \<le> n \<and> n \<le> maxRetries
      \<and> (\<forall>i. k \<le> i \<and> i < n \<longrightarrow>
            snd (nth_call d compress upd replies jes (failreason oc) job i) \<noteq> None)
      \<and> (n < maxRetries \<longrightarrow>
            snd (nth_call d compress upd replies jes (failreason oc) job n) = None)
      \<and> report_loop compress upd replies oc jes k
            (job_after d compress upd replies jes (failreason oc) job k, e)
          = (if n < maxRetries
             then ((fst (nth_call d compress upd replies jes (failreason oc) job n), None), True,
                   retries d k n @ [Call d])
             else ((job_after d compress upd replies jes (failreason oc) job maxRetries,
                    if k < maxRetries
                    then snd (nth_call d compress upd replies jes (failreason oc) job (maxRetries - 1))
                    else e),
                   False, retries d k maxRetries))"
proof (induction "maxRetries - k" arbitrary: k e)
  case 0
  then have k: "k = maxRetries" by simp
  have "report_loop compress upd replies oc jes k
            (job_after d compress upd replies jes (failreason oc) job k, e)
        = ((job_after d compress upd replies jes (failreason oc) job k, e), False, [])"
    using k by (subst report_loop.simps) simp
  with k show ?case
    by (intro exI [of _ maxRetries]) (auto simp: retries_same)
next
  case (Suc m)
  let ?J = "job_after d compress upd replies jes (failreason oc) job"
  let ?c = "nth_call d compress upd replies jes (failreason oc) job"
  from Suc.hyps(2) have k: "k < maxRetries" by simp
  have att: "attempt compress upd (replies k) oc jes (?J k, e) = (?c k, [Call d])"
    using attempt_method [OF d, of compress upd "replies k" jes "(?J k, e)"]
    by (simp add: nth_call_def)
  show ?case
  proof (cases "snd (?c k)")
    case None
    then have c: "?c k = (fst (?c k), None)" by (metis prod.collapse)
    have "report_loop compress upd replies oc jes k (?J k, e)
            = ((fst (?c k), None), True, [Call d])"
      using k by (subst report_loop.simps, simp add: att, subst c, simp)
    with k None show ?thesis
      by (intro exI [of _ k]) (auto simp: retries_same)
  next
    case (Some x)
    then have c: "?c k = (fst (?c k), Some x)" by (metis prod.collapse)
    have next_job: "?J (Suc k) = fst (?c k)"
      by (simp add: nth_call_def)
    from Suc.hyps(2) have m: "m = maxRetries - Suc k" by simp
    from k have k': "Suc k \<le> maxRetries" by simp
    from Suc.hyps(1) [OF m k', of "Some x"]
    obtain n where n: "Suc k \<le> n" "n \<le> maxRetries"
      and fails: "\<forall>i. Suc k \<le> i \<and> i < n \<longrightarrow> snd (?c i) \<noteq> None"
      and ok: "n < maxRetries \<longrightarrow> snd (?c n) = None"
      and loop: "report_loop compress upd replies oc jes (Suc k) (?J (Suc k), Some x)
          = (if n < maxRetries
             then ((fst (?c n), None), True, retries d (Suc k) n @ [Call d])
             else ((?J maxRetries,
                    if Suc k < maxRetries then snd (?c (maxRetries - 1)) else Some x),
                   False, retries d (Suc k) maxRetries))"
      by blast
    have fails': "\<forall>i. k \<le> i \<and> i < n \<longrightarrow> snd (?c i) \<noteq> None"
    proof (intro allI impI)
      fix i assume i: "k \<le> i \<and> i < n"
      show "snd (?c i) \<noteq> None"
      proof (cases "i = k")
        case True
        with Some show ?thesis by simp
      next
        case False
        with i fails show ?thesis by simp
      qed
    qed
    have last: "(if Suc k < maxRetries then snd (?c (maxRetries - 1)) else Some x)
                  = snd (?c (maxRetries - 1))"
    proof (cases "Suc k < maxRetries")
      case True
      then show ?thesis by simp
    next
      case False
      with k have "maxRetries - 1 = k" by simp
      with False Some show ?thesis by simp
    qed
    have unfold: "report_loop compress upd replies oc jes k (?J k, e)
            = (case report_loop compress upd replies oc jes (Suc k) (?J (Suc k), Some x) of
                 (je'', worked, tr) \<Rightarrow> (je'', worked, [Call d] @ [Sleep (k * 100)] @ tr))"
      using k by (subst report_loop.simps, simp add: att, subst c, simp add: nth_call_def)
    have "report_loop compress upd replies oc jes k (?J k, e)
          = (if n < maxRetries
             then ((fst (?c n), None), True, retries d k n @ [Call d])
             else ((?J maxRetries, if k < maxRetries then snd (?c (maxRetries - 1)) else e),
                   False, retries d k maxRetries))"
      unfolding unfold loop last using k n by (simp add: retries_Suc)
    with n fails' ok show ?thesis
      by (intro exI [of _ n]) simp
  qed
qed


lemma trace_sleeps_append: "trace_sleeps (xs @ ys) = trace_sleeps xs @ trace_sleeps ys"
  by (induction xs rule: trace_sleeps.induct) auto

lemma trace_calls_append: "trace_calls (xs @ ys) = trace_calls xs @ trace_calls ys"
  by (induction xs rule: trace_calls.induct) auto

lemma trace_behaviours_append:
  "trace_behaviours (xs @ ys) = trace_behaviours xs @ trace_behaviours ys"
  by (induction xs rule: trace_behaviours.induct) auto

lemma trace_sleeps_retries: "trace_sleeps (retries d k n) = map (\<lambda>i. i * 100) [k..<n]"
proof (induction "n - k" arbitrary: k)
  case 0
  then show ?case by (simp add: retries_def)
next
  case (Suc m)
  then have "k < n" "m = n - Suc k" by auto
  with Suc.hyps(1) [of "Suc k"] show ?case
    by (simp add: retries_Suc upt_conv_Cons)
qed

lemma trace_calls_retries: "trace_calls (retries d k n) = replicate (n - k) d"
proof (induction "n - k" arbitrary: k)
  case 0
  then show ?case by (simp add: retries_def)
next
  case (Suc m)
  then have "k < n" "m = n - Suc k" by auto
  with Suc.hyps(1) [of "Suc k"] Suc.hyps(2) show ?case
    by (simp add: retries_Suc Suc_diff_Suc flip: replicate_Suc)
qed

lemma trace_behaviours_retries: "trace_behaviours (retries d k n) = []"
proof (induction "n - k" arbitrary: k)
  case 0
  then show ?case by (simp add: retries_def)
next
  case (Suc m)
  then have "k < n" "m = n - Suc k" by auto
  with Suc.hyps(1) [of "Suc k"] show ?case
    by (simp add: retries_Suc)
qed

lemma decide_disposes: "\<exists>d. disposition_of (decide err status s unmountErr) = Some d"
  by (cases err; cases unmountErr)
     (simp_all add: decide_def after_unmount_def classify_def disposition_of_def outcome0_def Let_def)

lemma sorted_backoff: "sorted (map (\<lambda>i. i * 100) [0..<n])"
  by (simp add: sorted_map sorted_wrt_iff_nth_less)

lemma rerun_error_text:
  "\<exists>u v. rerun_error cmd err errt = u @ ''will need to be rerun'' @ v"
proof -
  let ?u = "''command ['' @ cmd @ ''] finished running, but ''"
  let ?v = "'' due to a jobqueue server error: '' @ errtext err
       @ (case errt of None \<Rightarrow> []
          | Some m \<Rightarrow> '' (and triggering behaviours failed: '' @ m @ '')'')"
  have "rerun_error cmd err errt = ?u @ ''will need to be rerun'' @ ?v"
    by (simp add: rerun_error_def)
  then show ?thesis by blast
qed

lemma myerr_at_behaviours_nil:
  "(myerr_at_behaviours err failure killErr closeErr = None)
     = (err = WaitNil \<and> killErr = None \<and> closeErr = None)"
  by (cases err; cases killErr; cases closeErr)
     (simp_all add: myerr_at_behaviours_def also_failed_def)

text \<open>
  The end of \<open>Execute\<close> after a command that was waited for, in terms of the calls made.
\<close>

lemma Execute_after_Wait_calls:
  assumes oc: "oc = decide err (ExitStatus ps) s unmountErr"
    and jes: "jes = final_state darwin (Maxrss ps) probe err (ExitStatus ps) unmountErr actualCwd
                      (SystemTime ps) finalStdOut finalStdErr s"
  shows "\<exists>d n.
      disposition_of oc = Some d \<and> n \<le> maxRetries
    \<and> (\<forall>i<n. snd (nth_call d compress upd replies jes (failreason oc) job i) \<noteq> None)
    \<and> (n < maxRetries \<longrightarrow>
          snd (nth_call d compress upd replies jes (failreason oc) job n) = None)
    \<and> Execute_after_Wait compress upd replies darwin probe (Waited err ps) failure killErr
          closeErr berr unmountErr errt actualCwd finalStdOut finalStdErr s job
        = Inr ((if n < maxRetries
                then fst (nth_call d compress upd replies jes (failreason oc) job n)
                else job_after d compress upd replies jes (failreason oc) job maxRetries),
               (if n < maxRetries
                then myerr_at_report err failure killErr closeErr berr unmountErr
                else Some (rerun_error
                       (Cmd (job_after d compress upd replies jes (failreason oc) job maxRetries))
                       (snd (nth_call d compress upd replies jes (failreason oc) job
                               (maxRetries - 1)))
                       errt)),
               TriggerBehaviours (myerr_at_behaviours err failure killErr closeErr = None)
               # retries d 0 n @ (if n < maxRetries then [Call d] else [TriggerBehaviours False]))"
proof -
  from decide_disposes oc obtain d where d: "disposition_of oc = Some d" by blast
  let ?e0 = "case err of WaitNil \<Rightarrow> None | ExitError \<Rightarrow> Some (StatusText ps)"
  have pos: "0 < maxRetries" by (simp add: maxRetries_def)
  from report_loop_calls [OF d, of 0 compress upd replies jes job ?e0]
  obtain n where n: "n \<le> maxRetries"
    and fails0: "\<forall>i. 0 \<le> i \<and> i < n \<longrightarrow>
          snd (nth_call d compress upd replies jes (failreason oc) job i) \<noteq> None"
    and ok: "n < maxRetries \<longrightarrow>
          snd (nth_call d compress upd replies jes (failreason oc) job n) = None"
    and loop0: "report_loop compress upd replies oc jes 0
            (job_after d compress upd replies jes (failreason oc) job 0, ?e0)
          = (if n < maxRetries
             then ((fst (nth_call d compress upd replies jes (failreason oc) job n), None), True,
                   retries d 0 n @ [Call d])
             else ((job_after d compress upd replies jes (failreason oc) job maxRetries,
                    if 0 < maxRetries
                    then snd (nth_call d compress upd replies jes (failreason oc) job
                                (maxRetries - 1))
                    else ?e0),
                   False, retries d 0 maxRetries))"
    by blast
  from fails0
  have fails: "\<forall>i<n. snd (nth_call d compress upd replies jes (failreason oc) job i) \<noteq> None"
    by simp
  have loop: "report_loop compress upd replies oc jes 0 (job, ?e0)
          = (if n < maxRetries
             then ((fst (nth_call d compress upd replies jes (failreason oc) job n), None), True,
                   retries d 0 n @ [Call d])
             else ((job_after d compress upd replies jes (failreason oc) job maxRetries,
                    snd (nth_call d compress upd replies jes (failreason oc) job (maxRetries - 1))),
                   False, retries d 0 maxRetries))"
    using loop0 pos by (cases "n < maxRetries") simp_all
  have "Execute_after_Wait compress upd replies darwin probe (Waited err ps) failure killErr
          closeErr berr unmountErr errt actualCwd finalStdOut finalStdErr s job
        = Inr ((if n < maxRetries
                then fst (nth_call d compress upd replies jes (failreason oc) job n)
                else job_after d compress upd replies jes (failreason oc) job maxRetries),
               (if n < maxRetries
                then myerr_at_report err failure killErr closeErr berr unmountErr
                else Some (rerun_error
                       (Cmd (job_after d compress upd replies jes (failreason oc) job maxRetries))
                       (snd (nth_call d compress upd replies jes (failreason oc) job
                               (maxRetries - 1)))
                       errt)),
               TriggerBehaviours (myerr_at_behaviours err failure killErr closeErr = None)
               # retries d 0 n @ (if n < maxRetries then [Call d] else [TriggerBehaviours False]))"
    using loop n
    by (cases "n < maxRetries")
       (simp_all add: Execute_after_Wait_def report_def oc [symmetric] jes [symmetric])
  with d n fails ok show ?thesis by blast
qed


lemma nth_call_reply_error:
  "snd (replies i) \<noteq> None \<Longrightarrow> snd (nth_call d compress upd replies jes fr job i) \<noteq> None"
  by (simp add: nth_call_def method_call_reply_error)

lemma nth_call_State:
  "snd (nth_call d compress upd replies jes fr job i) = None \<Longrightarrow>
   State (fst (nth_call d compress upd replies jes fr job i))
     = (case d of
          DoBury \<Rightarrow> JobStateBuried
        | DoArchive \<Rightarrow> JobStateComplete
        | DoRelease \<Rightarrow>
            if UntilBuried (fst (nth_call d compress upd replies jes fr job i)) \<le> 0
            then JobStateBuried else JobStateDelayed)"
  unfolding nth_call_def by (rule method_call_State)

lemma server_down_trace:
  assumes down: "\<forall>i<maxRetries. snd (replies i) \<noteq> None"
    and d: "disposition_of (decide err (ExitStatus ps) s unmountErr) = Some d"
  shows "trace_of (Execute_after_Wait compress upd replies darwin probe (Waited err ps) failure
            killErr closeErr berr unmountErr errt actualCwd finalStdOut finalStdErr s job)
         = TriggerBehaviours (myerr_at_behaviours err failure killErr closeErr = None)
           # retries d 0 maxRetries @ [TriggerBehaviours False]"
proof -
  let ?oc = "decide err (ExitStatus ps) s unmountErr"
  let ?jes = "final_state darwin (Maxrss ps) probe err (ExitStatus ps) unmountErr actualCwd
                (SystemTime ps) finalStdOut finalStdErr s"
  from Execute_after_Wait_calls [OF refl refl, of err ps s unmountErr compress upd replies darwin
      probe actualCwd finalStdOut finalStdErr job failure killErr closeErr berr errt]
  obtain d' n where d': "disposition_of ?oc = Some d'" and n: "n \<le> maxRetries"
    and ok: "n < maxRetries \<longrightarrow> snd (nth_call d' compress upd replies ?jes (failreason ?oc) job n) = None"
    and run0: "Execute_after_Wait compress upd replies darwin probe (Waited err ps) failure killErr
          closeErr berr unmountErr errt actualCwd finalStdOut finalStdErr s job
        = Inr ((if n < maxRetries
                then fst (nth_call d' compress upd replies ?jes (failreason ?oc) job n)
                else job_after d' compress upd replies ?jes (failreason ?oc) job maxRetries),
               (if n < maxRetries
                then myerr_at_report err failure killErr closeErr berr unmountErr
                else Some (rerun_error
                       (Cmd (job_after d' compress upd replies ?jes (failreason ?oc) job maxRetries))
                       (snd (nth_call d' compress upd replies ?jes (failreason ?oc) job
                               (maxRetries - 1)))
                       errt)),
               TriggerBehaviours (myerr_at_behaviours err failure killErr closeErr = None)
               # retries d' 0 n @ (if n < maxRetries then [Call d'] else [TriggerBehaviours False]))"
    by blast
  have run: "trace_of (Execute_after_Wait compress upd replies darwin probe (Waited err ps) failure
            killErr closeErr berr unmountErr errt actualCwd finalStdOut finalStdErr s job)
        = TriggerBehaviours (myerr_at_behaviours err failure killErr closeErr = None)
          # retries d' 0 n @ (if n < maxRetries then [Call d'] else [TriggerBehaviours False])"
    unfolding run0 by (simp add: trace_of_def)
  from d d' have dd: "d' = d" by simp
  have "n = maxRetries"
  proof (rule ccontr)
    assume "n \<noteq> maxRetries"
    with n have lt: "n < maxRetries" by simp
    with down have "snd (replies n) \<noteq> None" by simp
    then have "snd (nth_call d' compress upd replies ?jes (failreason ?oc) job n) \<noteq> None"
      by (rule nth_call_reply_error)
    with ok lt show False by simp
  qed
  with run dd show ?thesis by simp
qed

lemma server_down_fails: "\<forall>i<maxRetries. snd (server_down i) \<noteq> None"
  by (simp add: server_down_def reply_err_def)

text \<open>
  C6, as amended. After a command that was waited for, the outcome selects one of
  \<open>Bury\<close>, \<open>Release\<close> and \<open>Archive\<close>, and each iteration of the report loop calls that
  method, and no other, on the job as the earlier calls left it. For some \<open>n\<close> of at most
  300, the calls 0 to \<open>n - 1\<close> return an error and each is followed by a sleep of 100 ms
  times its number, so the sleeps are 0, 100, 200, ... in nondecreasing order. If \<open>n\<close>
  is below 300, call \<open>n\<close> returns no error, the loop stops, \<open>Execute\<close> returns \<open>myerr\<close>
  and the job is the one that call left, in the state the method gives it. Otherwise 300
  calls were made, \<open>TriggerBehaviours(false)\<close> follows, and \<open>Execute\<close> returns the error
  that says the command will need to be rerun, with the error of the last call; this
  happens when the server answers every one of the 300 requests with an error. It is the
  second call of \<open>TriggerBehaviours\<close>: the first, before the unmount, passed
  \<open>myerr == nil\<close>, which is true exactly after an exit with 0 when neither \<open>Kill\<close> nor
  closing the readers failed.
\<close>

theorem final_state_report:
  assumes oc: "oc = decide err (ExitStatus ps) s unmountErr"
    and jes: "jes = final_state darwin (Maxrss ps) probe err (ExitStatus ps) unmountErr actualCwd
                      (SystemTime ps) finalStdOut finalStdErr s"
  shows "\<exists>d n.
      disposition_of oc = Some d \<and> n \<le> maxRetries \<and> maxRetries = 300
    \<and> (\<forall>i<n. snd (nth_call d compress upd replies jes (failreason oc) job i) \<noteq> None)
    \<and> (n < maxRetries \<longrightarrow>
          snd (nth_call d compress upd replies jes (failreason oc) job n) = None
          \<and> State (fst (nth_call d compress upd replies jes (failreason oc) job n))
              = (case d of
                   DoBury \<Rightarrow> JobStateBuried
                 | DoArchive \<Rightarrow> JobStateComplete
                 | DoRelease \<Rightarrow>
                     if UntilBuried (fst (nth_call d compress upd replies jes (failreason oc) job n))
                          \<le> 0
                     then JobStateBuried else JobStateDelayed))
    \<and> Execute_after_Wait compress upd replies darwin probe (Waited err ps) failure killErr
          closeErr berr unmountErr errt actualCwd finalStdOut finalStdErr s job
        = Inr ((if n < maxRetries
                then fst (nth_call d compress upd replies jes (failreason oc) job n)
                else job_after d compress upd replies jes (failreason oc) job maxRetries),
               (if n < maxRetries
                then myerr_at_report err failure killErr closeErr berr unmountErr
                else Some (rerun_error
                       (Cmd (job_after d compress upd replies jes (failreason oc) job maxRetries))
                       (snd (nth_call d compress upd replies jes (failreason oc) job
                               (maxRetries - 1)))
                       errt)),
               TriggerBehaviours (myerr_at_behaviours err failure killErr closeErr = None)
               # retries d 0 n @ (if n < maxRetries then [Call d] else [TriggerBehaviours False]))
    \<and> trace_of (Execute_after_Wait compress upd replies darwin probe (Waited err ps) failure
          killErr closeErr berr unmountErr errt actualCwd finalStdOut finalStdErr s job)
        = TriggerBehaviours (myerr_at_behaviours err failure killErr closeErr = None)
          # retries d 0 n @ (if n < maxRetries then [Call d] else [TriggerBehaviours False])
    \<and> (myerr_at_behaviours err failure killErr closeErr = None)
        = (err = WaitNil \<and> killErr = None \<and> closeErr = None)
    \<and> trace_calls (retries d 0 n @ (if n < maxRetries then [Call d] else [TriggerBehaviours False]))
        = replicate (if n < maxRetries then Suc n else maxRetries) d
    \<and> trace_sleeps (retries d 0 n @ (if n < maxRetries then [Call d] else [TriggerBehaviours False]))
        = map (\<lambda>i. i * 100) [0..<n]
    \<and> sorted (map (\<lambda>i. i * 100) [0..<n])
    \<and> ((\<forall>i<maxRetries. snd (replies i) \<noteq> None) \<longrightarrow> n = maxRetries)
    \<and> (\<exists>u v. rerun_error
                 (Cmd (job_after d compress upd replies jes (failreason oc) job maxRetries))
                 (snd (nth_call d compress upd replies jes (failreason oc) job (maxRetries - 1)))
                 errt
               = u @ ''will need to be rerun'' @ v)"
proof -
  from Execute_after_Wait_calls [OF oc jes, of compress upd replies job failure killErr closeErr
      berr errt]
  obtain d n where d: "disposition_of oc = Some d" and n: "n \<le> maxRetries"
    and fails: "\<forall>i<n. snd (nth_call d compress upd replies jes (failreason oc) job i) \<noteq> None"
    and ok: "n < maxRetries \<longrightarrow>
          snd (nth_call d compress upd replies jes (failreason oc) job n) = None"
    and run: "Execute_after_Wait compress upd replies darwin probe (Waited err ps) failure killErr
          closeErr berr unmountErr errt actualCwd finalStdOut finalStdErr s job
        = Inr ((if n < maxRetries
                then fst (nth_call d compress upd replies jes (failreason oc) job n)
                else job_after d compress upd replies jes (failreason oc) job maxRetries),
               (if n < maxRetries
                then myerr_at_report err failure killErr closeErr berr unmountErr
                else Some (rerun_error
                       (Cmd (job_after d compress upd replies jes (failreason oc) job maxRetries))
                       (snd (nth_call d compress upd replies jes (failreason oc) job
                               (maxRetries - 1)))
                       errt)),
               TriggerBehaviours (myerr_at_behaviours err failure killErr closeErr = None)
               # retries d 0 n @ (if n < maxRetries then [Call d] else [TriggerBehaviours False]))"
    by blast
  have st: "n < maxRetries \<longrightarrow>
          snd (nth_call d compress upd replies jes (failreason oc) job n) = None
          \<and> State (fst (nth_call d compress upd replies jes (failreason oc) job n))
              = (case d of
                   DoBury \<Rightarrow> JobStateBuried
                 | DoArchive \<Rightarrow> JobStateComplete
                 | DoRelease \<Rightarrow>
                     if UntilBuried (fst (nth_call d compress upd replies jes (failreason oc) job n))
                          \<le> 0
                     then JobStateBuried else JobStateDelayed)"
    using ok nth_call_State [of d compress upd replies jes "failreason oc" job n] by blast
  have m: "maxRetries = 300" by (simp add: maxRetries_def)
  have c: "trace_calls (retries d 0 n @ (if n < maxRetries then [Call d] else [TriggerBehaviours False]))
        = replicate (if n < maxRetries then Suc n else maxRetries) d"
    using n by (simp add: trace_calls_append trace_calls_retries replicate_append_same)
  have sl: "trace_sleeps (retries d 0 n @ (if n < maxRetries then [Call d] else [TriggerBehaviours False]))
        = map (\<lambda>i. i * 100) [0..<n]"
    by (simp add: trace_sleeps_append trace_sleeps_retries)
  have allfail: "(\<forall>i<maxRetries. snd (replies i) \<noteq> None) \<longrightarrow> n = maxRetries"
  proof
    assume down: "\<forall>i<maxRetries. snd (replies i) \<noteq> None"
    show "n = maxRetries"
    proof (rule ccontr)
      assume "n \<noteq> maxRetries"
      with n have lt: "n < maxRetries" by simp
      with down have "snd (replies n) \<noteq> None" by simp
      then have "snd (nth_call d compress upd replies jes (failreason oc) job n) \<noteq> None"
        by (rule nth_call_reply_error)
      with ok lt show False by simp
    qed
  qed
  have tr: "trace_of (Execute_after_Wait compress upd replies darwin probe (Waited err ps) failure
          killErr closeErr berr unmountErr errt actualCwd finalStdOut finalStdErr s job)
        = TriggerBehaviours (myerr_at_behaviours err failure killErr closeErr = None)
          # retries d 0 n @ (if n < maxRetries then [Call d] else [TriggerBehaviours False])"
    unfolding run by (simp add: trace_of_def)
  from d n m fails st run tr myerr_at_behaviours_nil [of err failure killErr closeErr] c sl
    sorted_backoff [of n] allfail
    rerun_error_text [of "Cmd (job_after d compress upd replies jes (failreason oc) job maxRetries)"
      "snd (nth_call d compress upd replies jes (failreason oc) job (maxRetries - 1))" errt]
  show ?thesis
    by (intro exI [of _ d] exI [of _ n] conjI)
qed


theorem final_state_report_witness:
  "snd (server_down 0) \<noteq> None \<and> snd (server_down 299) \<noteq> None
   \<and> trace_of (Execute_after_Wait store id server_down False (20, None) (Waited ExitError exited_1)
        ''exit 1'' None None None None None [] [] [] supervisor0 job0)
     = TriggerBehaviours False # retries DoRelease 0 maxRetries @ [TriggerBehaviours False]"
proof -
  have d0: "snd (server_down 0) \<noteq> None \<and> snd (server_down 299) \<noteq> None"
    by (simp add: server_down_def reply_err_def)
  have rel: "disposition_of (decide ExitError (ExitStatus exited_1) supervisor0 None)
               = Some DoRelease"
    by (simp add: decide_def after_unmount_def classify_def disposition_of_def outcome0_def
        supervisor0_def exited_1_def)
  have "trace_of (Execute_after_Wait store id server_down False (20, None) (Waited ExitError exited_1)
        ''exit 1'' None None None None None [] [] [] supervisor0 job0)
     = TriggerBehaviours False # retries DoRelease 0 maxRetries @ [TriggerBehaviours False]"
    using final_state_report [OF refl refl, where err = ExitError and ps = exited_1
      and s = supervisor0 and unmountErr = None and compress = store and upd = id
      and replies = server_down and darwin = False and probe = "(20, None)"
      and failure = "''exit 1''" and killErr = None and closeErr = None and berr = None
      and errt = None and actualCwd = "[]" and finalStdOut = "[]" and finalStdErr = "[]"
      and job = job0]
  proof (elim exE conjE)
    fix d n
    assume dd: "disposition_of (decide ExitError (ExitStatus exited_1) supervisor0 None) = Some d"
      and tr: "trace_of (Execute_after_Wait store id server_down False (20, None)
            (Waited ExitError exited_1) ''exit 1'' None None None None None [] [] []
            supervisor0 job0)
          = TriggerBehaviours (myerr_at_behaviours ExitError ''exit 1'' None None = None)
            # retries d 0 n @ (if n < maxRetries then [Call d] else [TriggerBehaviours False])"
      and first: "(myerr_at_behaviours ExitError ''exit 1'' None None = None)
                  = (ExitError = WaitNil \<and> (None::error) = None \<and> (None::error) = None)"
      and allfail: "(\<forall>i<maxRetries. snd (server_down i) \<noteq> None) \<longrightarrow> n = maxRetries"
    from dd rel have d: "d = DoRelease" by simp
    from allfail server_down_fails have n: "n = maxRetries" by blast
    from first have f: "(myerr_at_behaviours ExitError ''exit 1'' None None = None) = False"
      by simp
    show ?thesis
      unfolding tr by (simp add: d n f)
  qed
  with d0 show ?thesis by blast
qed

text \<open>
  The claim as it was stated fails for a command that exited with 0: when every attempt
  then fails, the behaviours are triggered twice, first for success and then for
  failure, so the failure behaviours run once, not a second time.
\<close>

theorem behaviours_first_success_counterexample:
  "snd (server_down 0) \<noteq> None \<and> snd (server_down 299) \<noteq> None
   \<and> trace_calls (trace_of (Execute_after_Wait store id server_down False (20, None)
        (Waited WaitNil exited_0) [] None None None None None [] [] [] supervisor0 job0))
     = replicate 300 DoArchive
   \<and> trace_behaviours (trace_of (Execute_after_Wait store id server_down False (20, None)
        (Waited WaitNil exited_0) [] None None None None None [] [] [] supervisor0 job0))
     = [True, False]"
proof -
  have d0: "snd (server_down 0) \<noteq> None \<and> snd (server_down 299) \<noteq> None"
    by (simp add: server_down_def reply_err_def)
  have arch: "disposition_of (decide WaitNil (ExitStatus exited_0) supervisor0 None)
               = Some DoArchive"
    by (simp add: decide_def after_unmount_def classify_def disposition_of_def outcome0_def
        exited_0_def)
  have first: "(myerr_at_behaviours WaitNil [] None None = None) = True"
    by (simp add: myerr_at_behaviours_nil)
  have tr: "trace_of (Execute_after_Wait store id server_down False (20, None)
        (Waited WaitNil exited_0) [] None None None None None [] [] [] supervisor0 job0)
     = TriggerBehaviours True # retries DoArchive 0 maxRetries @ [TriggerBehaviours False]"
    using server_down_trace [OF server_down_fails arch, of store id False "(20, None)" "[]"
        None None None None "[]" "[]" "[]" job0]
    by (simp only: first)
  have c: "trace_calls (TriggerBehaviours True # retries DoArchive 0 maxRetries
             @ [TriggerBehaviours False]) = replicate 300 DoArchive"
    by (simp add: trace_calls_append trace_calls_retries maxRetries_def)
  have b: "trace_behaviours (TriggerBehaviours True # retries DoArchive 0 maxRetries
             @ [TriggerBehaviours False]) = [True, False]"
    by (simp add: trace_behaviours_append trace_behaviours_retries)
  from d0 c b show ?thesis unfolding tr by blast
qed

text \<open>
  A run of the loop against a server that fails twice and then answers: three calls of
  \<open>Release\<close>, sleeps of 0 and 100 ms, and the job delayed with one retry less.
\<close>

lemma decide_exit1:
  "decide ExitError 1 supervisor0 None
     = outcome0\<lparr>exitcode := 1, dorelease := True, failreason := FailReasonExit\<rparr>"
  by (simp add: decide_def after_unmount_def classify_def supervisor0_def Let_def)

lemma ended_jes1_any:
  "ended store j (Some jes1)
     = (j\<lparr>Exited := True, Exitcode := 1, PeakRAM := 12, CPUtime := 0, StdErrC := ''boom''\<rparr>, None)"
  by (simp add: ended_def jes1_def end_state_def decide_exit1 outcome0_def store_def Let_def)

lemma attempt_down:
  "attempt store id reply_err (decide ExitError 1 supervisor0 None) jes1 (j, e)
     = ((j\<lparr>Exited := True, Exitcode := 1, PeakRAM := 12, CPUtime := 0, StdErrC := ''boom'',
            FailReason := FailReasonExit\<rparr>, Some ''receive time out''), [Call DoRelease])"
  by (simp add: attempt_def decide_exit1 outcome0_def Release_def ended_jes1_any reply_err_def)

lemma attempt_up:
  "attempt store id reply_ok (decide ExitError 1 supervisor0 None) jes1 (j, e)
     = ((j\<lparr>Exited := True, Exitcode := 1, PeakRAM := 12, CPUtime := 0, StdErrC := ''boom'',
            FailReason := FailReasonExit, UntilBuried := UntilBuried j - 1,
            State := (if UntilBuried j - 1 \<le> 0 then JobStateBuried else JobStateDelayed)\<rparr>, None),
        [Call DoRelease])"
  by (simp add: attempt_def decide_exit1 outcome0_def Release_def ended_jes1_any reply_ok_def Let_def)

lemma report_two_failures:
  "report store id two_failures None (decide ExitError 1 supervisor0 None) jes1 (Some ''exit 1'')
     (job0, None)
   = (job0\<lparr>Exited := True, Exitcode := 1, PeakRAM := 12, StdErrC := ''boom'',
           FailReason := ''command exited non-zero'', UntilBuried := 2, State := JobStateDelayed\<rparr>,
      Some ''exit 1'',
      [Call DoRelease, Sleep 0, Call DoRelease, Sleep 100, Call DoRelease])"
proof -
  let ?oc = "decide ExitError 1 supervisor0 None"
  have l2: "report_loop store id two_failures ?oc jes1 2 (j, e)
     = (fst (attempt store id reply_ok ?oc jes1 (j, e)), True, [Call DoRelease])" for j e
    by (subst report_loop.simps) (simp add: maxRetries_def two_failures_def attempt_up)
  have l1: "report_loop store id two_failures ?oc jes1 1 (j, e)
     = (fst (attempt store id reply_ok ?oc jes1 (fst (fst (attempt store id reply_err ?oc jes1 (j, e))), Some ''receive time out'')),
        True, [Call DoRelease, Sleep 100, Call DoRelease])" for j e
    by (subst report_loop.simps)
       (simp add: maxRetries_def two_failures_def attempt_down l2 [unfolded numeral_2_eq_2])
  have l0: "report_loop store id two_failures ?oc jes1 0 (job0, None)
     = (fst (attempt store id reply_ok ?oc jes1
              (fst (fst (attempt store id reply_err ?oc jes1
                 (fst (fst (attempt store id reply_err ?oc jes1 (job0, None))), Some ''receive time out''))),
               Some ''receive time out'')),
        True, [Call DoRelease, Sleep 0, Call DoRelease, Sleep 100, Call DoRelease])"
    by (subst report_loop.simps)
       (simp add: maxRetries_def two_failures_def attempt_down l1 [unfolded One_nat_def])
  show ?thesis
    unfolding report_def l0
    by (simp add: attempt_down attempt_up job0_def FailReasonExit_def)
qed

subsection \<open>Touch and the end-state methods exclude each other\<close>

lemma go_step_holder:
  assumes inv: "\<forall>h. holds_teMutex (at m h) \<longrightarrow> teMutex m = Some h"
  shows "\<forall>h. holds_teMutex (at (go_step m (g, mv)) h) \<longrightarrow> teMutex (go_step m (g, mv)) = Some h"
proof -
  have uniq: "h = k" if "holds_teMutex (at m h)" and "holds_teMutex (at m k)" for h k
    using that inv by (metis option.inject)
  have free: "\<not> holds_teMutex (at m h)" if "teMutex m = None" for h
    using that inv by auto
  show ?thesis
  proof (cases "at m g")
    case Idle
    with inv show ?thesis by (cases mv) (auto simp: go_step.simps)
  next
    case TouchLock
    with inv free show ?thesis by (auto simp: go_step.simps)
  next
    case TouchRequest
    with inv show ?thesis by (auto simp: go_step.simps)
  next
    case TouchWire
    with inv show ?thesis by (auto simp: go_step.simps)
  next
    case TouchReplied
    with uniq [of g] show ?thesis by (auto simp: go_step.simps)
  next
    case EndedLock
    with inv free show ?thesis by (auto simp: go_step.simps)
  next
    case EndedUpdate
    with uniq [of g] show ?thesis by (auto simp: go_step.simps)
  next
    case EndLock
    with inv free show ?thesis by (auto simp: go_step.simps)
  next
    case EndRequest
    with inv uniq [of g] show ?thesis by (auto simp: go_step.simps)
  next
    case EndWire
    with inv show ?thesis by (auto simp: go_step.simps)
  next
    case EndReplied
    with uniq [of g] show ?thesis by (auto simp: go_step.simps)
  qed
qed

lemma foldl_go_step_holder:
  "\<forall>h. holds_teMutex (at m h) \<longrightarrow> teMutex m = Some h \<Longrightarrow>
   \<forall>h. holds_teMutex (at (foldl go_step m schedule) h) \<longrightarrow> teMutex (foldl go_step m schedule) = Some h"
proof (induction schedule arbitrary: m)
  case Nil
  then show ?case by simp
next
  case (Cons a schedule)
  obtain g mv where a: "a = (g, mv)" by (cases a)
  from Cons.prems have "\<forall>h. holds_teMutex (at (go_step m (g, mv)) h) \<longrightarrow> teMutex (go_step m (g, mv)) = Some h"
    by (rule go_step_holder)
  then show ?case unfolding a foldl_Cons by (rule Cons.IH)
qed

text \<open>
  C9. After every schedule of goroutines that call \<open>Touch\<close>, \<open>Archive\<close>, \<open>Release\<close> and
  \<open>Bury\<close> on one client, a goroutine that is between the \<open>Lock\<close> and the \<open>Unlock\<close> of
  \<open>teMutex\<close> in \<open>Touch\<close> holds \<open>teMutex\<close>, and so does a goroutine that is between those
  that surround the request of an end-state method. Hence no goroutine is in the one
  section while a goroutine is in the other, and in particular the request of a \<open>Touch\<close>
  is never on the wire together with the request of an end-state method.
\<close>

theorem Touch_excludes_end_state:
  "(in_Touch (go_run schedule) g \<longrightarrow> teMutex (go_run schedule) = Some g)
   \<and> (in_end (go_run schedule) g' \<longrightarrow> teMutex (go_run schedule) = Some g')
   \<and> \<not> (in_Touch (go_run schedule) g \<and> in_end (go_run schedule) g')
   \<and> \<not> (at (go_run schedule) g = TouchWire \<and> at (go_run schedule) g' = EndWire)"
proof -
  let ?m = "go_run schedule"
  have "\<forall>h. holds_teMutex (at mutexes0 h) \<longrightarrow> teMutex mutexes0 = Some h"
    by (simp add: mutexes0_def)
  then have "\<forall>h. holds_teMutex (at ?m h) \<longrightarrow> teMutex ?m = Some h"
    unfolding go_run_def by (rule foldl_go_step_holder)
  then have h: "\<And>g. holds_teMutex (at ?m g) \<Longrightarrow> teMutex ?m = Some g" by blast
  have t: "in_Touch ?m g \<longrightarrow> teMutex ?m = Some g"
    using h [of g] by (auto simp: in_Touch_def)
  have e: "in_end ?m g' \<longrightarrow> teMutex ?m = Some g'"
    using h [of g'] by (auto simp: in_end_def)
  have x: "\<not> (in_Touch ?m g \<and> in_end ?m g')"
  proof
    assume b: "in_Touch ?m g \<and> in_end ?m g'"
    with t e have "g = g'" by simp
    with b show False by (auto simp: in_Touch_def in_end_def)
  qed
  then have w: "\<not> (at ?m g = TouchWire \<and> at ?m g' = EndWire)"
    by (auto simp: in_Touch_def in_end_def)
  from t e x w show ?thesis by blast
qed

lemma run_touching_while_ending:
  "go_run touching_while_ending
     = \<lparr>teMutex = Some 1, reqMutex = Some 1, at = (\<lambda>g. Idle)(0 := EndLock, 1 := TouchWire)\<rparr>"
  by (simp add: go_run_def touching_while_ending_def mutexes0_def go_step.simps fun_upd_twist)

theorem Touch_excludes_end_state_witness:
  "in_Touch (go_run touching_while_ending) 1
   \<and> teMutex (go_run touching_while_ending) = Some 1
   \<and> at (go_run touching_while_ending) 0 = EndLock
   \<and> \<not> in_end (go_run touching_while_ending) 0"
  using Touch_excludes_end_state [of touching_while_ending 1 0]
  by (simp add: run_touching_while_ending in_Touch_def in_end_def)

end
